theory Spec2Isabelle
  imports Main "HOL-Library.Word" "HOL-Library.Monad_Syntax" "HOL-Library.Log_Nat"
begin

unbundle bit_operations_syntax

chapter \<open>The ocean renderer of Granite (renderer/ocean.cpp)\<close>

text \<open>
  The theory embeds the host side of the ocean renderer: the construction of the LOD mesh
  table, the declaration of the render-graph resources, and the command streams recorded for
  the LOD update pass, the FFT input pass and the draw. A command buffer is the list of the
  calls made on it, in order. The compute shaders, the FFT library and the render graph are
  not part of renderer/ocean.cpp; where a statement needs one of them it is a parameter or a
  definition marked as modelled from the specification.
\<close>

section \<open>Scalars\<close>

type_synonym u8 = "8 word"
type_synonym u16 = "16 word"
type_synonym u32 = "32 word"

text \<open>
  A C++ \<^verbatim>\<open>float\<close> is modelled by the rational it denotes: \<open>Some q\<close> is the finite
  binary32 value \<open>q\<close> (the sign of zero is not tracked), and \<open>None\<close> stands for a value
  the model does not track, which is what an operation gives once it leaves the finite range
  (overflow, division by zero) or has an untracked operand. Every operation rounds its exact
  result to the nearest binary32 value, ties to even, with gradual underflow.
\<close>

type_synonym float = "rat option"

definition pow2 :: "int \<Rightarrow> rat" where
  "pow2 e = (if 0 \<le> e then 2 ^ nat e else 1 / 2 ^ nat (- e))"

definition floor_log2 :: "rat \<Rightarrow> int" where
  "floor_log2 a =
     (if 1 \<le> a then bitlen \<lfloor>a\<rfloor> - 1 else - bitlen (\<lceil>1 / a\<rceil> - 1))"

definition round_half_even :: "rat \<Rightarrow> int" where
  "round_half_even q =
     (let f = \<lfloor>q\<rfloor>; r = q - of_int f
      in if r < 1 / 2 then f else if 1 / 2 < r then f + 1 else if even f then f else f + 1)"

definition round_to_float :: "rat \<Rightarrow> float" where
  "round_to_float q =
     (if q = 0 then Some 0
      else let e = max (floor_log2 \<bar>q\<bar>) (- 126);
               ulp = pow2 (e - 23);
               r = of_int (round_half_even (q / ulp)) * ulp
           in if pow2 128 \<le> \<bar>r\<bar> then None else Some r)"

definition f_sub :: "float \<Rightarrow> float \<Rightarrow> float" where
  "f_sub a b = do { x \<leftarrow> a; y \<leftarrow> b; round_to_float (x - y) }"

definition f_mul :: "float \<Rightarrow> float \<Rightarrow> float" where
  "f_mul a b = do { x \<leftarrow> a; y \<leftarrow> b; round_to_float (x * y) }"

definition f_div :: "float \<Rightarrow> float \<Rightarrow> float" where
  "f_div a b = do { x \<leftarrow> a; y \<leftarrow> b; if y = 0 then None else round_to_float (x / y) }"

text \<open>Conversions: \<^verbatim>\<open>float(unsigned)\<close>, \<^verbatim>\<open>float(int)\<close> and \<^verbatim>\<open>int(float)\<close>. The last one
  truncates towards zero and is undefined in C++ outside the range of \<^verbatim>\<open>int\<close>.\<close>

definition float_of_uint :: "u32 \<Rightarrow> float" where
  "float_of_uint n = round_to_float (of_nat (unat n))"

definition float_of_int :: "u32 \<Rightarrow> float" where
  "float_of_int n = round_to_float (of_int (sint n))"

definition float_of_size :: "nat \<Rightarrow> float" where
  "float_of_size n = round_to_float (of_nat n)"

definition trunc_rat :: "rat \<Rightarrow> int" where
  "trunc_rat q = (if 0 \<le> q then \<lfloor>q\<rfloor> else \<lceil>q\<rceil>)"

definition int_of_float :: "float \<Rightarrow> u32 option" where
  "int_of_float a =
     do { x \<leftarrow> a;
          if - (2 ^ 31) \<le> trunc_rat x \<and> trunc_rat x < 2 ^ 31
          then Some (word_of_int (trunc_rat x)) else None }"

text \<open>Modelled from the spec: \<^verbatim>\<open>muglm::round\<close> is not in renderer/ocean.cpp. The grid
  centre is "snapped to the nearest cell boundary": the nearest integer, a tie going away
  from zero as C's \<^verbatim>\<open>roundf\<close> does.\<close>

definition f_round :: "float \<Rightarrow> float" where
  "f_round a =
     do { x \<leftarrow> a;
          Some (of_int (if 0 \<le> x then \<lfloor>x + 1 / 2\<rfloor> else \<lceil>x - 1 / 2\<rceil>)) }"

text \<open>Modelled from the spec: \<^verbatim>\<open>muglm::pi<float>()\<close> is not in renderer/ocean.cpp; it is
  the binary32 value nearest to pi.\<close>

definition pi_float :: float where
  "pi_float = Some (13176795 / 4194304)"

type_synonym vec2 = "float \<times> float"
type_synonym vec3 = "float \<times> float \<times> float"
type_synonym vec4 = "float \<times> float \<times> float \<times> float"
type_synonym ivec2 = "u32 \<times> u32"
type_synonym uvec2 = "u32 \<times> u32"

definition v2_div :: "vec2 \<Rightarrow> vec2 \<Rightarrow> vec2" where
  "v2_div a b = (f_div (fst a) (fst b), f_div (snd a) (snd b))"

definition v2_mul :: "vec2 \<Rightarrow> vec2 \<Rightarrow> vec2" where
  "v2_mul a b = (f_mul (fst a) (fst b), f_mul (snd a) (snd b))"

definition v2_sub :: "vec2 \<Rightarrow> vec2 \<Rightarrow> vec2" where
  "v2_sub a b = (f_sub (fst a) (fst b), f_sub (snd a) (snd b))"

definition v2_scale :: "float \<Rightarrow> vec2 \<Rightarrow> vec2" where
  "v2_scale s a = (f_mul s (fst a), f_mul s (snd a))"

definition v2_rdiv :: "float \<Rightarrow> vec2 \<Rightarrow> vec2" where
  "v2_rdiv s a = (f_div s (fst a), f_div s (snd a))"

definition v2_round :: "vec2 \<Rightarrow> vec2" where
  "v2_round a = (f_round (fst a), f_round (snd a))"

definition v2_splat :: "float \<Rightarrow> vec2" where
  "v2_splat s = (s, s)"

definition v2_of_uint :: "u32 \<Rightarrow> u32 \<Rightarrow> vec2" where
  "v2_of_uint a b = (float_of_uint a, float_of_uint b)"

definition v2_of_ivec2 :: "ivec2 \<Rightarrow> vec2" where
  "v2_of_ivec2 a = (float_of_int (fst a), float_of_int (snd a))"

definition xz :: "vec3 \<Rightarrow> vec2" where
  "xz v = (fst v, snd (snd v))"

text \<open>\<^verbatim>\<open>ivec2(vec2)\<close> converts each component; \<^verbatim>\<open>ivec2 - ivec2\<close> and
  \<^verbatim>\<open>ivec2 >> 1\<close> work on two's complement values (the shift is arithmetic).\<close>

definition iv2_of_vec2 :: "vec2 \<Rightarrow> ivec2 option" where
  "iv2_of_vec2 a = do { x \<leftarrow> int_of_float (fst a); y \<leftarrow> int_of_float (snd a); Some (x, y) }"

definition iv2_sub :: "ivec2 \<Rightarrow> ivec2 \<Rightarrow> ivec2" where
  "iv2_sub a b = (fst a - fst b, snd a - snd b)"

definition iv2_shr :: "ivec2 \<Rightarrow> nat \<Rightarrow> ivec2" where
  "iv2_shr a n = (signed_drop_bit n (fst a), signed_drop_bit n (snd a))"

section \<open>Data model\<close>

text \<open>\<^verbatim>\<open>MaxLODIndirect\<close>, and the Vulkan flag bits the file uses.\<close>

definition MaxLODIndirect :: nat where
  "MaxLODIndirect = 8"

definition VK_PIPELINE_STAGE_COMPUTE_SHADER_BIT :: u32 where
  "VK_PIPELINE_STAGE_COMPUTE_SHADER_BIT = 0x800"

definition VK_ACCESS_SHADER_READ_BIT :: u32 where
  "VK_ACCESS_SHADER_READ_BIT = 0x20"

definition VK_ACCESS_SHADER_WRITE_BIT :: u32 where
  "VK_ACCESS_SHADER_WRITE_BIT = 0x40"

definition VK_IMAGE_USAGE_SAMPLED_BIT :: u32 where
  "VK_IMAGE_USAGE_SAMPLED_BIT = 0x4"

record OceanVertex =
  pos :: "u8 list"
  weights :: "u8 list"

datatype BufferUsage = VERTEX_BUFFER | INDEX_BUFFER | STORAGE_BUFFER

datatype BufferData = Vertices "OceanVertex list" | Indices "u16 list" | ZeroInitialized

text \<open>A device buffer: the \<^verbatim>\<open>BufferCreateInfo\<close> it was created from (size in bytes, usage)
  and its initial contents. \<^verbatim>\<open>Device::create_buffer\<close> is taken to succeed.\<close>

record Buffer =
  buffer_size :: nat
  buffer_usage :: BufferUsage
  buffer_data :: BufferData

text \<open>One tier of the mesh table. \<open>count\<close> is \<^verbatim>\<open>indices.size()\<close>; it is narrowed to 32 bits
  where it is stored into a \<^verbatim>\<open>uint32_t\<close>.\<close>

record LOD =
  vbo :: Buffer
  ibo :: Buffer
  count :: nat

datatype FFTType = ComplexToComplex | ComplexToReal | RealToComplex
datatype FFTDirection = Forward | Inverse
datatype FFTTarget = SSBO | Image | ImageReal

text \<open>The arguments of one \<^verbatim>\<open>GLFFT::FFT\<close> constructor call. The constructor itself
  belongs to the FFT library; it either returns the plan or throws.\<close>

record FFT =
  Nx :: u32
  Ny :: u32
  fft_type :: FFTType
  fft_direction :: FFTDirection
  input_target :: FFTTarget
  output_target :: FFTTarget
  fp16 :: bool
  input_fp16 :: bool
  output_fp16 :: bool

datatype error = ConfigurationError

type_synonym fft_constructor = "FFT \<Rightarrow> error + FFT"

datatype Format =
  FORMAT_UNDEFINED | R16_SFLOAT | R16G16_SFLOAT | R16G16B16A16_SFLOAT
  | R8G8B8A8_UINT | R8G8B8A8_UNORM

datatype SizeClass = Absolute | SwapchainRelative | InputRelative

record AttachmentInfo =
  size_class :: SizeClass
  size_x :: float
  size_y :: float
  format :: Format
  levels :: u32
  aux_usage :: u32

record BufferInfo =
  info_size :: nat
  info_usage :: u32

datatype PassCallback = UpdateLodPass | UpdateFftPass
datatype Queue = RENDER_GRAPH_QUEUE_GRAPHICS_BIT | RENDER_GRAPH_QUEUE_COMPUTE_BIT

text \<open>A render-graph pass as this file uses it: its name and queue, the storage buffers and storage
  textures it declares as outputs (in declaration order), and the callback that records it.\<close>

record RenderPass =
  pass_name :: string
  pass_queue :: Queue
  storage_outputs :: "(string \<times> BufferInfo) list"
  storage_texture_outputs :: "(string \<times> AttachmentInfo) list"
  build_render_pass :: "PassCallback option"

type_synonym RenderGraph = "RenderPass list"

text \<open>What a command binds: a buffer or texture of the render graph, found by the name it
  was declared under, a buffer the ocean owns, or one mip level of a graph texture.\<close>

datatype BufferRef = GraphBuffer string | DeviceBuffer Buffer
datatype ViewRef = GraphTexture string | MipView string nat

datatype Sampler = NearestWrap | LinearWrap | TrilinearWrap
datatype Topology = TRIANGLE_STRIP
datatype IndexType = UINT16

datatype Program =
  ComputeProgram string "(string \<times> int) list"
  | SuiteProgram

record LodMapPush =
  lm_camera_pos :: vec3
  lm_max_lod :: float
  lm_image_offset :: ivec2
  lm_num_threads :: ivec2
  lm_grid_base :: vec2
  lm_grid_size :: vec2

record CullPush =
  cp_image_offset :: ivec2
  cp_num_threads :: ivec2
  cp_inv_num_threads :: vec2
  cp_grid_base :: vec2
  cp_grid_size :: vec2
  cp_grid_resolution :: vec2
  cp_heightmap_range :: vec2
  cp_lod_stride :: u32

record FftPush =
  fp_mod :: vec2
  fp_N :: uvec2
  fp_time :: float

record OceanData =
  inv_heightmap_size :: vec2
  normal_uv_scale :: vec2
  integer_to_world_mod :: vec2
  heightmap_range :: vec2

datatype PushData =
  PushLodMap LodMapPush | PushCull CullPush | PushFft FftPush | PushOceanData OceanData

text \<open>The calls on \<^verbatim>\<open>Vulkan::CommandBuffer\<close> (and the FFT's \<^verbatim>\<open>process\<close>, which records
  into it). Push constants are always written at offset 0 with the size of the whole struct;
  \<open>ConstantDataU32\<close> and \<open>ConstantDataVec4\<close> are \<^verbatim>\<open>allocate_typed_constant_data\<close>
  together with the values stored into the allocation.\<close>

datatype Command =
  SetProgram Program
  | SetStorageTexture nat nat ViewRef
  | SetStorageBuffer nat nat BufferRef
  | SetTexture nat nat ViewRef Sampler
  | SetUniformBuffer nat nat BufferRef nat nat
  | ConstantDataU32 nat nat "u32 list"
  | ConstantDataVec4 nat nat "vec4 list"
  | PushConstants PushData
  | Dispatch u32 u32 u32
  | Barrier u32 u32 u32 u32
  | FFTProcess FFT ViewRef BufferRef
  | SetVertexAttrib nat nat Format nat
  | SetPrimitiveRestart bool
  | SetWireframe bool
  | SetPrimitiveTopology Topology
  | SetVertexBinding nat BufferRef nat nat
  | SetIndexBuffer BufferRef nat IndexType
  | DrawIndexedIndirect BufferRef nat nat nat

type_synonym CommandBuffer = "Command list"

text \<open>The fields of \<^verbatim>\<open>Ocean\<close> that the modelled functions read or write. A pointer or
  handle that may be null is an option; \<open>frustum_planes\<close> is what
  \<^verbatim>\<open>context->get_visibility_frustum().get_planes()\<close> gives. The field \<^verbatim>\<open>size\<close> is
  \<open>size_world\<close> here, and \<^verbatim>\<open>current_time\<close>, a double, is the rational it denotes.\<close>

record Ocean =
  size_world :: vec2
  size_normal :: vec2
  grid_width :: u32
  grid_height :: u32
  grid_resolution :: u32
  height_fft_size :: u32
  displacement_fft_size :: u32
  normal_fft_size :: u32
  current_time :: "rat option"
  last_camera_position :: vec3
  frustum_planes :: "vec4 list option"
  quad_lod :: "LOD list"
  height_fft :: "FFT option"
  displacement_fft :: "FFT option"
  normal_fft :: "FFT option"
  distribution_buffer :: "Buffer option"
  distribution_buffer_displacement :: "Buffer option"
  distribution_buffer_normal :: "Buffer option"
  ocean_lod :: "string option"
  lod_data :: "string option"
  lod_data_counters :: "string option"
  height_fft_input :: "string option"
  displacement_fft_input :: "string option"
  normal_fft_input :: "string option"
  height_fft_output :: "string option"
  displacement_fft_output :: "string option"
  normal_fft_output :: "string option"
  height_displacement_output :: "string option"
  gradient_jacobian_output :: "string option"
  normal_mip_views :: "ViewRef list"

record OceanInfo =
  program :: Program
  ubo :: BufferRef
  indirect :: BufferRef
  vbos :: "Buffer option list"
  ibos :: "Buffer option list"
  heightmap :: ViewRef
  lod_map :: ViewRef
  grad_jacobian :: ViewRef
  normal :: ViewRef
  lods :: u32
  lod_stride :: u32
  ocean_data :: OceanData

section \<open>The LOD mesh table\<close>

text \<open>The body of the vertex loops of \<^verbatim>\<open>Ocean::build_lod\<close>: the vertex at \<open>(x, y)\<close>.
  Positions are truncated to \<^verbatim>\<open>uint8_t\<close>; the weights come from the if-else chain. In
  this section \<open>g\<close> is the member \<^verbatim>\<open>grid_resolution\<close>, \<open>sz\<close> the parameter \<^verbatim>\<open>size\<close> and
  \<open>slc\<close> the counter \<^verbatim>\<open>slice\<close>.\<close>

definition ocean_vertex :: "u32 \<Rightarrow> u32 \<Rightarrow> u32 \<Rightarrow> OceanVertex" where
  "ocean_vertex g x y =
     (let half_size = drop_bit 1 g;
          v = \<lparr>pos = replicate 4 0, weights = replicate 4 0\<rparr>;
          v = v\<lparr>pos := (pos v)[0 := ucast x]\<rparr>;
          v = v\<lparr>pos := (pos v)[1 := ucast y]\<rparr>;
          v = v\<lparr>pos := (pos v)[2 := (if x < half_size then 1 else 0)]\<rparr>;
          v = v\<lparr>pos := (pos v)[3 := (if y < half_size then 1 else 0)]\<rparr>
      in if x = 0 then v\<lparr>weights := (weights v)[0 := 255]\<rparr>
         else if x = g then v\<lparr>weights := (weights v)[1 := 255]\<rparr>
         else if y = 0 then v\<lparr>weights := (weights v)[2 := 255]\<rparr>
         else if y = g then v\<lparr>weights := (weights v)[3 := 255]\<rparr>
         else v)"

text \<open>The loops of \<^verbatim>\<open>build_lod\<close>, with their 32-bit counters: \<^verbatim>\<open>x += stride\<close> and
  \<^verbatim>\<open>x++\<close> wrap around, so a loop whose bound is within a stride of \<open>2\<^sup>3\<^sup>2\<close> does not
  end, which is the value \<open>None\<close>.\<close>

partial_function (option) vertex_row ::
  "u32 \<Rightarrow> u32 \<Rightarrow> u32 \<Rightarrow> u32 \<Rightarrow> OceanVertex list \<Rightarrow> OceanVertex list option" where
  "vertex_row g stride y x vertices =
     (if x \<le> g
      then vertex_row g stride y (x + stride) (vertices @ [ocean_vertex g x y])
      else Some vertices)"

partial_function (option) vertex_rows ::
  "u32 \<Rightarrow> u32 \<Rightarrow> u32 \<Rightarrow> OceanVertex list \<Rightarrow> OceanVertex list option" where
  "vertex_rows g stride y vertices =
     (if y \<le> g
      then do {
        vertices' \<leftarrow> vertex_row g stride y 0 vertices;
        vertex_rows g stride (y + stride) vertices'
      }
      else Some vertices)"

partial_function (option) index_row :: "u32 \<Rightarrow> u32 \<Rightarrow> u32 \<Rightarrow> u16 list \<Rightarrow> u16 list option" where
  "index_row sz base x indices =
     (if x \<le> sz
      then index_row sz base (x + 1)
             (indices @ [ucast (base + x), ucast (base + (sz + 1) + x)])
      else Some indices)"

partial_function (option) index_rows :: "u32 \<Rightarrow> u32 \<Rightarrow> u16 list \<Rightarrow> u16 list option" where
  "index_rows sz slc indices =
     (if slc < sz
      then do {
        indices' \<leftarrow> index_row sz (slc * (sz + 1)) 0 indices;
        index_rows sz (slc + 1) (indices' @ [0xffff])
      }
      else Some indices)"

declare vertex_row.simps [code] vertex_rows.simps [code]
declare index_row.simps [code] index_rows.simps [code]

text \<open>\<^verbatim>\<open>Ocean::build_lod(device, size, stride)\<close>: \<^verbatim>\<open>sizeof(OceanVertex)\<close> is 8 and
  \<^verbatim>\<open>sizeof(uint16_t)\<close> is 2.\<close>

definition build_lod :: "Ocean \<Rightarrow> u32 \<Rightarrow> u32 \<Rightarrow> Ocean option" where
  "build_lod st sz stride =
     do {
       vertices \<leftarrow> vertex_rows (grid_resolution st) stride 0 [];
       indices \<leftarrow> index_rows sz 0 [];
       let lod = \<lparr>vbo = \<lparr>buffer_size = length vertices * 8, buffer_usage = VERTEX_BUFFER,
                             buffer_data = Vertices vertices\<rparr>,
                      ibo = \<lparr>buffer_size = length indices * 2, buffer_usage = INDEX_BUFFER,
                             buffer_data = Indices indices\<rparr>,
                      count = length indices\<rparr>;
       Some (st\<lparr>quad_lod := quad_lod st @ [lod]\<rparr>)
     }"

partial_function (option) build_buffers_loop :: "Ocean \<Rightarrow> u32 \<Rightarrow> u32 \<Rightarrow> Ocean option" where
  "build_buffers_loop st sz stride =
     (if 2 \<le> sz
      then do {
        st' \<leftarrow> build_lod st sz stride;
        build_buffers_loop st' (drop_bit 1 sz) (push_bit 1 stride)
      }
      else Some st)"

declare build_buffers_loop.simps [code]

definition build_buffers :: "Ocean \<Rightarrow> Ocean option" where
  "build_buffers st = build_buffers_loop st (grid_resolution st) 1"

section \<open>Construction\<close>

definition init_distributions :: "Ocean \<Rightarrow> Ocean" where
  "init_distributions st =
     (let height_distribution =
            \<lparr>buffer_size = unat (height_fft_size st * height_fft_size st) * 8,
             buffer_usage = STORAGE_BUFFER, buffer_data = ZeroInitialized\<rparr>;
          displacement_distribution =
            \<lparr>buffer_size = unat (displacement_fft_size st * displacement_fft_size st) * 8,
             buffer_usage = STORAGE_BUFFER, buffer_data = ZeroInitialized\<rparr>;
          normal_distribution =
            \<lparr>buffer_size = unat (normal_fft_size st * normal_fft_size st) * 8,
             buffer_usage = STORAGE_BUFFER, buffer_data = ZeroInitialized\<rparr>
      in st\<lparr>distribution_buffer := Some height_distribution,
            distribution_buffer_displacement := Some displacement_distribution,
            distribution_buffer_normal := Some normal_distribution\<rparr>)"

definition fft_args :: "u32 \<Rightarrow> FFTType \<Rightarrow> FFTTarget \<Rightarrow> FFT" where
  "fft_args n ty out =
     \<lparr>Nx = n, Ny = n, fft_type = ty, fft_direction = Inverse, input_target = SSBO,
      output_target = out, fp16 = True, input_fp16 = True, output_fp16 = True\<rparr>"

text \<open>\<^verbatim>\<open>Ocean::on_device_created\<close>, given the constructor of the FFT library. The result is
  \<open>None\<close> when a loop of the mesh builder does not end, \<open>Some (Inl e)\<close> when a constructor
  throws \<open>e\<close>, and \<open>Some (Inr st')\<close> when the function returns.\<close>

definition on_device_created :: "fft_constructor \<Rightarrow> Ocean \<Rightarrow> (error + Ocean) option" where
  "on_device_created new_FFT st =
     (case new_FFT (fft_args (height_fft_size st) ComplexToReal ImageReal) of
        Inl e \<Rightarrow> Some (Inl e)
      | Inr h \<Rightarrow>
     (case new_FFT (fft_args (displacement_fft_size st) ComplexToComplex Image) of
        Inl e \<Rightarrow> Some (Inl e)
      | Inr d \<Rightarrow>
     (case new_FFT (fft_args (normal_fft_size st) ComplexToComplex Image) of
        Inl e \<Rightarrow> Some (Inl e)
      | Inr n \<Rightarrow>
          do {
            st' \<leftarrow> build_buffers
                     (st\<lparr>height_fft := Some h, displacement_fft := Some d, normal_fft := Some n\<rparr>);
            Some (Inr (init_distributions st'))
          })))"

text \<open>Modelled from the spec: the constructor of \<^verbatim>\<open>GLFFT::FFT\<close> is not part of
  renderer/ocean.cpp. Each FFT size "must be a power of two", and a size that is not is
  "rejected at construction time with a configuration error".\<close>

definition is_power_of_two :: "u32 \<Rightarrow> bool" where
  "is_power_of_two n = (n \<noteq> 0 \<and> n AND (n - 1) = 0)"

definition GLFFT_FFT :: fft_constructor where
  "GLFFT_FFT args =
     (if is_power_of_two (Nx args) \<and> is_power_of_two (Ny args) then Inr args
      else Inl ConfigurationError)"

section \<open>The LOD grid\<close>

text \<open>\<^verbatim>\<open>Ocean::on_frame_tick\<close> stores the elapsed time of the event and \<^verbatim>\<open>Ocean::refresh\<close>
  latches the camera position of the render context.\<close>

definition on_frame_tick :: "rat option \<Rightarrow> Ocean \<Rightarrow> Ocean \<times> bool" where
  "on_frame_tick elapsed_time st = (st\<lparr>current_time := elapsed_time\<rparr>, True)"

definition refresh :: "vec3 \<Rightarrow> Ocean \<Rightarrow> Ocean" where
  "refresh camera_position st = st\<lparr>last_camera_position := camera_position\<rparr>"

definition get_grid_size :: "Ocean \<Rightarrow> vec2" where
  "get_grid_size st = v2_div (size_world st) (v2_of_uint (grid_width st) (grid_height st))"

definition get_snapped_grid_center :: "Ocean \<Rightarrow> vec2" where
  "get_snapped_grid_center st =
     (let inv_grid_size = v2_div (v2_of_uint (grid_width st) (grid_height st)) (size_world st);
          grid_center = v2_round (v2_mul (xz (last_camera_position st)) inv_grid_size)
      in grid_center)"

definition get_grid_base_coord :: "Ocean \<Rightarrow> ivec2 option" where
  "get_grid_base_coord st =
     do {
       center \<leftarrow> iv2_of_vec2 (get_snapped_grid_center st);
       Some (iv2_sub center (iv2_shr (grid_width st, grid_height st) 1))
     }"

text \<open>The recording functions take the command buffer and return it with their calls
  appended. The result is \<open>None\<close> where the C++ is undefined: a null handle is dereferenced
  or a float outside the range of \<^verbatim>\<open>int\<close> is converted.\<close>

definition build_lod_map :: "Ocean \<Rightarrow> CommandBuffer \<Rightarrow> CommandBuffer option" where
  "build_lod_map st cmd =
     do {
       lod \<leftarrow> ocean_lod st;
       let cmd = cmd @ [SetStorageTexture 0 0 (GraphTexture lod)];
       let grid_center = get_snapped_grid_center st;
       let grid_base = v2_sub (v2_mul grid_center (get_grid_size st))
                              (v2_scale (Some (1 / 2)) (size_world st));
       image_offset \<leftarrow> get_grid_base_coord st;
       let push = \<lparr>lm_camera_pos = last_camera_position st,
                   lm_max_lod = f_sub (float_of_size (length (quad_lod st))) (Some 1),
                   lm_image_offset = image_offset,
                   lm_num_threads = (grid_width st, grid_height st),
                   lm_grid_base = grid_base,
                   lm_grid_size = get_grid_size st\<rparr>;
       Some (cmd @
         [PushConstants (PushLodMap push),
          SetProgram (ComputeProgram ''builtin://shaders/ocean/update_lod.comp'' []),
          Dispatch ((grid_width st + 7) div 8) ((grid_height st + 7) div 8) 1])
     }"

text \<open>\<^verbatim>\<open>Ocean::init_counter_buffer\<close>. The loop stores into every one of the 16 allocated
  entries, so what the allocation held before is immaterial; it is zero here.\<close>

definition init_counter_buffer :: "Ocean \<Rightarrow> CommandBuffer \<Rightarrow> CommandBuffer option" where
  "init_counter_buffer st cmd =
     do {
       counters \<leftarrow> lod_data_counters st;
       let vertex_counts =
             fold (\<lambda>i vc. vc[i := (if i < length (quad_lod st)
                                   then of_nat (count (quad_lod st ! i)) else 0)])
                  [0..<16] (replicate 16 0);
       Some (cmd @
         [SetStorageBuffer 0 0 (GraphBuffer counters),
          ConstantDataU32 0 1 vertex_counts,
          SetProgram (ComputeProgram ''builtin://shaders/ocean/init_counter_buffer.comp''
                        [(''NUM_COUNTERS'', int MaxLODIndirect)]),
          Dispatch 1 1 1])
     }"

definition cull_blocks :: "Ocean \<Rightarrow> CommandBuffer \<Rightarrow> CommandBuffer option" where
  "cull_blocks st cmd =
     do {
       let grid_center = get_snapped_grid_center st;
       let grid_base = v2_sub (v2_mul grid_center (get_grid_size st))
                              (v2_scale (Some (1 / 2)) (size_world st));
       planes \<leftarrow> frustum_planes st;
       let cmd = cmd @ [ConstantDataVec4 0 3 (take 6 planes)];
       image_offset \<leftarrow> get_grid_base_coord st;
       let num_threads = (grid_width st, grid_height st);
       let push = \<lparr>cp_image_offset = image_offset,
                   cp_num_threads = num_threads,
                   cp_inv_num_threads = v2_rdiv (Some 1) (v2_of_ivec2 num_threads),
                   cp_grid_base = grid_base,
                   cp_grid_size = get_grid_size st,
                   cp_grid_resolution = v2_splat (float_of_uint (grid_resolution st)),
                   cp_heightmap_range = (Some (- 10), Some 10),
                   cp_lod_stride = grid_width st * grid_height st\<rparr>;
       let cmd = cmd @ [PushConstants (PushCull push)];
       lod \<leftarrow> ocean_lod st;
       lod_buffer \<leftarrow> lod_data st;
       let cmd = cmd @ [SetStorageBuffer 0 0 (GraphBuffer lod_buffer)];
       lod_counter_buffer \<leftarrow> lod_data_counters st;
       Some (cmd @
         [SetStorageBuffer 0 1 (GraphBuffer lod_counter_buffer),
          SetTexture 0 2 (GraphTexture lod) NearestWrap,
          SetProgram (ComputeProgram ''builtin://shaders/ocean/cull_blocks.comp'' []),
          Dispatch ((grid_width st + 7) div 8) ((grid_height st + 7) div 8) 1])
     }"

definition update_lod_pass :: "Ocean \<Rightarrow> CommandBuffer \<Rightarrow> CommandBuffer option" where
  "update_lod_pass st cmd =
     do {
       cmd \<leftarrow> build_lod_map st cmd;
       cmd \<leftarrow> init_counter_buffer st cmd;
       let cmd = cmd @
         [Barrier VK_PIPELINE_STAGE_COMPUTE_SHADER_BIT VK_ACCESS_SHADER_WRITE_BIT
                  VK_PIPELINE_STAGE_COMPUTE_SHADER_BIT
                  (VK_ACCESS_SHADER_WRITE_BIT OR VK_ACCESS_SHADER_READ_BIT)];
       cull_blocks st cmd
     }"

section \<open>The FFT passes\<close>

definition generate_fft :: "(string \<times> int) list \<Rightarrow> Program" where
  "generate_fft defines = ComputeProgram ''builtin://shaders/ocean/generate_fft.comp'' defines"

definition update_fft_input :: "Ocean \<Rightarrow> CommandBuffer \<Rightarrow> CommandBuffer option" where
  "update_fft_input st cmd =
     do {
       let height_variant = generate_fft [];
       let normal_variant = generate_fft [(''GRADIENT_NORMAL'', 1)];
       let displacement_variant = generate_fft [(''GRADIENT_DISPLACEMENT'', 1)];
       let push_mod = v2_div (v2_splat (f_mul (Some 2) pi_float)) (size_world st);
       let push_time = Option.bind (current_time st) round_to_float;

       let cmd = cmd @ [SetProgram height_variant];
       let push_N = (height_fft_size st, height_fft_size st);
       distribution \<leftarrow> distribution_buffer st;
       let cmd = cmd @ [SetStorageBuffer 0 0 (DeviceBuffer distribution)];
       input \<leftarrow> height_fft_input st;
       let cmd = cmd @
         [SetStorageBuffer 0 1 (GraphBuffer input),
          PushConstants (PushFft \<lparr>fp_mod = push_mod, fp_N = push_N, fp_time = push_time\<rparr>),
          Dispatch (height_fft_size st div 64) (height_fft_size st) 1];

       let cmd = cmd @ [SetProgram displacement_variant];
       let push_N = (normal_fft_size st, normal_fft_size st);
       distribution \<leftarrow> distribution_buffer_displacement st;
       let cmd = cmd @ [SetStorageBuffer 0 0 (DeviceBuffer distribution)];
       input \<leftarrow> displacement_fft_input st;
       let cmd = cmd @
         [SetStorageBuffer 0 1 (GraphBuffer input),
          PushConstants (PushFft \<lparr>fp_mod = push_mod, fp_N = push_N, fp_time = push_time\<rparr>),
          Dispatch (displacement_fft_size st div 64) (displacement_fft_size st) 1];

       let push_mod = v2_div (v2_splat (f_mul (Some 2) pi_float)) (size_normal st);
       let cmd = cmd @ [SetProgram normal_variant];
       let push_N = (normal_fft_size st, normal_fft_size st);
       distribution \<leftarrow> distribution_buffer_normal st;
       let cmd = cmd @ [SetStorageBuffer 0 0 (DeviceBuffer distribution)];
       input \<leftarrow> normal_fft_input st;
       Some (cmd @
         [SetStorageBuffer 0 1 (GraphBuffer input),
          PushConstants (PushFft \<lparr>fp_mod = push_mod, fp_N = push_N, fp_time = push_time\<rparr>),
          Dispatch (normal_fft_size st div 64) (normal_fft_size st) 1])
     }"

definition front :: "'a list \<Rightarrow> 'a option" where
  "front xs = (case xs of [] \<Rightarrow> None | x # _ \<Rightarrow> Some x)"

definition compute_fft :: "Ocean \<Rightarrow> CommandBuffer \<Rightarrow> CommandBuffer option" where
  "compute_fft st cmd =
     do {
       height_output \<leftarrow> height_fft_output st;
       height_input \<leftarrow> height_fft_input st;
       fft \<leftarrow> height_fft st;
       let cmd = cmd @ [FFTProcess fft (GraphTexture height_output) (GraphBuffer height_input)];

       normal_output \<leftarrow> front (normal_mip_views st);
       normal_input \<leftarrow> normal_fft_input st;
       fft \<leftarrow> normal_fft st;
       let cmd = cmd @ [FFTProcess fft normal_output (GraphBuffer normal_input)];

       displacement_output \<leftarrow> displacement_fft_output st;
       displacement_input \<leftarrow> displacement_fft_input st;
       fft \<leftarrow> displacement_fft st;
       Some (cmd @
         [FFTProcess fft (GraphTexture displacement_output) (GraphBuffer displacement_input)])
     }"

section \<open>Render-graph declarations\<close>

text \<open>\<^verbatim>\<open>AttachmentInfo\<close> and \<^verbatim>\<open>BufferInfo\<close> are declared in the render graph's header, so
  the values of their default-constructed objects are parameters (\<open>att\<close> and \<open>buf\<close>).
  \<^verbatim>\<open>sizeof(uint32_t)\<close> is 4 and \<^verbatim>\<open>sizeof(uvec4)\<close> is 16; a product of \<^verbatim>\<open>unsigned\<close>
  values wraps before it is widened by a \<^verbatim>\<open>sizeof\<close> factor.\<close>

definition add_lod_update_pass ::
  "AttachmentInfo \<Rightarrow> BufferInfo \<Rightarrow> Ocean \<Rightarrow> RenderGraph \<Rightarrow> Ocean \<times> RenderGraph" where
  "add_lod_update_pass att buf st graph =
     (let lod_attachment = att\<lparr>format := R16_SFLOAT,
                                size_x := float_of_uint (grid_width st),
                                size_y := float_of_uint (grid_height st),
                                size_class := Absolute\<rparr>;
          lod_info_counter = buf\<lparr>info_size := MaxLODIndirect * (8 * 4)\<rparr>;
          lod_info = buf\<lparr>info_size :=
                       unat (grid_width st * grid_height st * of_nat MaxLODIndirect) * (2 * 16)\<rparr>;
          update_lod = \<lparr>pass_name = ''ocean-update-lods'',
                        pass_queue = RENDER_GRAPH_QUEUE_COMPUTE_BIT,
                        storage_outputs = [(''ocean-lod-counter'', lod_info_counter),
                                           (''ocean-lod-data'', lod_info)],
                        storage_texture_outputs = [(''ocean-lods'', lod_attachment)],
                        build_render_pass = Some UpdateLodPass\<rparr>
      in (st\<lparr>ocean_lod := Some ''ocean-lods'',
             lod_data_counters := Some ''ocean-lod-counter'',
             lod_data := Some ''ocean-lod-data''\<rparr>,
          graph @ [update_lod]))"

definition add_fft_update_pass ::
  "AttachmentInfo \<Rightarrow> BufferInfo \<Rightarrow> Ocean \<Rightarrow> RenderGraph \<Rightarrow> Ocean \<times> RenderGraph" where
  "add_fft_update_pass att buf st graph =
     (let normal_info = buf\<lparr>info_size := unat (normal_fft_size st * normal_fft_size st) * 4\<rparr>;
          height_info = buf\<lparr>info_size := unat (height_fft_size st * height_fft_size st) * 4\<rparr>;
          displacement_info =
            buf\<lparr>info_size := unat (displacement_fft_size st * displacement_fft_size st) * 4\<rparr>;
          normal_map = att\<lparr>size_class := Absolute,
                            size_x := float_of_uint (normal_fft_size st),
                            size_y := float_of_uint (normal_fft_size st),
                            format := R16G16_SFLOAT,
                            aux_usage := VK_IMAGE_USAGE_SAMPLED_BIT\<rparr>;
          displacement_map = att\<lparr>size_class := Absolute,
                                  size_x := float_of_uint (displacement_fft_size st),
                                  size_y := float_of_uint (displacement_fft_size st),
                                  format := R16G16_SFLOAT,
                                  aux_usage := VK_IMAGE_USAGE_SAMPLED_BIT\<rparr>;
          height_map = att\<lparr>size_class := Absolute,
                            size_x := float_of_uint (height_fft_size st),
                            size_y := float_of_uint (height_fft_size st),
                            format := R16_SFLOAT,
                            aux_usage := VK_IMAGE_USAGE_SAMPLED_BIT\<rparr>;
          height_displacement = att\<lparr>size_class := Absolute,
                                     size_x := float_of_uint (height_fft_size st),
                                     size_y := float_of_uint (height_fft_size st),
                                     format := R16G16B16A16_SFLOAT\<rparr>;
          height_displacement = height_displacement\<lparr>levels := of_nat (length (quad_lod st))\<rparr>;
          height_displacement_decl = (''ocean-height-displacement-output'', height_displacement);
          height_displacement = height_displacement\<lparr>levels := 0\<rparr>;
          gradient_jacobian_decl = (''ocean-gradient-jacobian-output'', height_displacement);
          update_fft = \<lparr>pass_name = ''ocean-update-fft'',
                        pass_queue = RENDER_GRAPH_QUEUE_COMPUTE_BIT,
                        storage_outputs = [(''ocean-height-fft-input'', height_info),
                                           (''ocean-normal-fft-input'', normal_info),
                                           (''ocean-displacement-fft-input'', displacement_info)],
                        storage_texture_outputs =
                          [(''ocean-height-fft-output'', height_map),
                           (''ocean-normal-fft-output'', normal_map),
                           (''ocean-displacement-fft-output'', displacement_map),
                           height_displacement_decl,
                           gradient_jacobian_decl],
                        build_render_pass = Some UpdateFftPass\<rparr>
      in (st\<lparr>height_fft_input := Some ''ocean-height-fft-input'',
             normal_fft_input := Some ''ocean-normal-fft-input'',
             displacement_fft_input := Some ''ocean-displacement-fft-input'',
             height_fft_output := Some ''ocean-height-fft-output'',
             normal_fft_output := Some ''ocean-normal-fft-output'',
             displacement_fft_output := Some ''ocean-displacement-fft-output'',
             height_displacement_output := Some ''ocean-height-displacement-output'',
             gradient_jacobian_output := Some ''ocean-gradient-jacobian-output''\<rparr>,
          graph @ [update_fft]))"

definition add_render_passes ::
  "AttachmentInfo \<Rightarrow> BufferInfo \<Rightarrow> Ocean \<Rightarrow> RenderGraph \<Rightarrow> Ocean \<times> RenderGraph" where
  "add_render_passes att buf st graph =
     (let (st, graph) = add_lod_update_pass att buf st graph
      in add_fft_update_pass att buf st graph)"

text \<open>The mip level count a pass declares for a texture, by the texture's name.\<close>

definition declared_levels :: "RenderGraph \<Rightarrow> string \<Rightarrow> u32 option" where
  "declared_levels graph name =
     map_option levels (map_of (concat (map storage_texture_outputs graph)) name)"

section \<open>Drawing\<close>

text \<open>\<^verbatim>\<open>Ocean::get_render_info\<close>, where the queue hands out a record (\<^verbatim>\<open>patch_data\<close> is
  not null). The arrays \<^verbatim>\<open>vbos\<close> and \<^verbatim>\<open>ibos\<close> have \<open>MaxLODIndirect\<close> entries, not
  initialised; the loop writes past their end when there are more tiers, which is
  \<open>None\<close>. \<^verbatim>\<open>sizeof(vec4)\<close> is 16 and \<^verbatim>\<open>lod_stride\<close> is an \<^verbatim>\<open>unsigned\<close>.\<close>

definition get_render_info :: "Ocean \<Rightarrow> OceanInfo option" where
  "get_render_info st =
     do {
       ubo_name \<leftarrow> lod_data st;
       indirect_name \<leftarrow> lod_data_counters st;
       lod \<leftarrow> ocean_lod st;
       normal_name \<leftarrow> normal_fft_output st;
       height_displacement \<leftarrow> height_displacement_output st;
       grad_jacobian_name \<leftarrow> gradient_jacobian_output st;
       if MaxLODIndirect < length (quad_lod st) then None
       else Some
         \<lparr>program = SuiteProgram,
          ubo = GraphBuffer ubo_name,
          indirect = GraphBuffer indirect_name,
          vbos = fold (\<lambda>i a. a[i := Some (vbo (quad_lod st ! i))])
                      [0..<length (quad_lod st)] (replicate MaxLODIndirect None),
          ibos = fold (\<lambda>i a. a[i := Some (ibo (quad_lod st ! i))])
                      [0..<length (quad_lod st)] (replicate MaxLODIndirect None),
          heightmap = GraphTexture height_displacement,
          lod_map = GraphTexture lod,
          grad_jacobian = GraphTexture grad_jacobian_name,
          normal = GraphTexture normal_name,
          lods = of_nat (length (quad_lod st)),
          lod_stride = grid_width st * grid_height st * 2 * 16,
          ocean_data =
            \<lparr>inv_heightmap_size = v2_rdiv (Some 1) (v2_splat (float_of_uint (height_fft_size st))),
             normal_uv_scale = v2_div (size_world st) (size_normal st),
             integer_to_world_mod =
               v2_div (get_grid_size st) (v2_splat (float_of_uint (grid_resolution st))),
             heightmap_range = (Some (- 10), Some 10)\<rparr>\<rparr>
     }"

text \<open>\<^verbatim>\<open>RenderFunctions::ocean_render\<close>: the loop over the LOD levels, the loop over the
  instances around it, and the state set before both. \<^verbatim>\<open>offsetof(OceanVertex, pos)\<close> is 0
  and \<^verbatim>\<open>offsetof(OceanVertex, weights)\<close> is 4. Reading an entry of \<^verbatim>\<open>vbos\<close> or \<^verbatim>\<open>ibos\<close>
  that was never written is \<open>None\<close>.\<close>

definition array_at :: "'a option list \<Rightarrow> nat \<Rightarrow> 'a option" where
  "array_at a i = (if i < length a then a ! i else None)"

fun render_lods :: "OceanInfo \<Rightarrow> nat list \<Rightarrow> CommandBuffer \<Rightarrow> CommandBuffer option" where
  "render_lods info [] cmd = Some cmd"
| "render_lods info (lod # rest) cmd =
     do {
       let cmd = cmd @
         [SetUniformBuffer 3 0 (ubo info)
            (unat (lod_stride info * of_nat lod)) (unat (lod_stride info))];
       vb \<leftarrow> array_at (vbos info) lod;
       let cmd = cmd @ [SetVertexBinding 0 (DeviceBuffer vb) 0 8];
       ib \<leftarrow> array_at (ibos info) lod;
       let cmd = cmd @
         [SetIndexBuffer (DeviceBuffer ib) 0 UINT16,
          DrawIndexedIndirect (indirect info) (8 * 4 * lod) 1 (8 * 4)];
       render_lods info rest cmd
     }"

fun render_instances :: "OceanInfo \<Rightarrow> nat list \<Rightarrow> CommandBuffer \<Rightarrow> CommandBuffer option" where
  "render_instances info [] cmd = Some cmd"
| "render_instances info (instance # rest) cmd =
     do {
       let cmd = cmd @
         [PushConstants (PushOceanData (ocean_data info)),
          SetTexture 2 0 (heightmap info) LinearWrap,
          SetTexture 2 1 (lod_map info) LinearWrap,
          SetTexture 2 2 (grad_jacobian info) TrilinearWrap,
          SetTexture 2 3 (normal info) TrilinearWrap];
       cmd \<leftarrow> render_lods info [0..<unat (lods info)] cmd;
       render_instances info rest cmd
     }"

definition ocean_render :: "CommandBuffer \<Rightarrow> OceanInfo \<Rightarrow> u32 \<Rightarrow> CommandBuffer option" where
  "ocean_render cmd ocean_info num_instances =
     render_instances ocean_info [0..<unat num_instances]
       (cmd @
         [SetProgram (program ocean_info),
          SetVertexAttrib 0 0 R8G8B8A8_UINT 0,
          SetVertexAttrib 1 0 R8G8B8A8_UNORM 4,
          SetPrimitiveRestart True,
          SetWireframe True,
          SetPrimitiveTopology TRIANGLE_STRIP])"

section \<open>Functions used to state the results\<close>

text \<open>The number of iterations of \<^verbatim>\<open>for (x = x0; x <= bound; x += stride)\<close> when the
  counter does not wrap around.\<close>

definition steps :: "u32 \<Rightarrow> u32 \<Rightarrow> u32 \<Rightarrow> nat" where
  "steps bound stride x =
     (if x \<le> bound then (unat bound - unat x) div unat stride + 1 else 0)"

text \<open>The number of halvings of \<open>n\<close> that start from a value of at least 2.\<close>

fun tiers :: "nat \<Rightarrow> nat" where
  "tiers n = (if 2 \<le> n then Suc (tiers (n div 2)) else 0)"

declare tiers.simps [simp del]

text \<open>The vertex grid and the index strips of one tier, as lists.\<close>

definition grid_vertices :: "u32 \<Rightarrow> u32 \<Rightarrow> OceanVertex list" where
  "grid_vertices g stride =
     concat (map (\<lambda>j. map (\<lambda>i. ocean_vertex g (of_nat i * stride) (of_nat j * stride))
                          [0..<steps g stride 0])
                 [0..<steps g stride 0])"

definition strip_pairs :: "u32 \<Rightarrow> u32 \<Rightarrow> u16 list" where
  "strip_pairs sz slc =
     concat (map (\<lambda>i. [ucast (slc * (sz + 1) + of_nat i),
                        ucast (slc * (sz + 1) + (sz + 1) + of_nat i)])
                 [0..<unat sz + 1])"

definition strip_row :: "u32 \<Rightarrow> u32 \<Rightarrow> u16 list" where
  "strip_row sz slc = strip_pairs sz slc @ [0xffff]"

definition strip_indices :: "u32 \<Rightarrow> u16 list" where
  "strip_indices sz = concat (map (\<lambda>j. strip_row sz (of_nat j)) [0..<unat sz])"

definition lod_mesh :: "u32 \<Rightarrow> u32 \<Rightarrow> u32 \<Rightarrow> LOD" where
  "lod_mesh g sz stride =
     \<lparr>vbo = \<lparr>buffer_size = length (grid_vertices g stride) * 8, buffer_usage = VERTEX_BUFFER,
             buffer_data = Vertices (grid_vertices g stride)\<rparr>,
      ibo = \<lparr>buffer_size = length (strip_indices sz) * 2, buffer_usage = INDEX_BUFFER,
             buffer_data = Indices (strip_indices sz)\<rparr>,
      count = length (strip_indices sz)\<rparr>"

definition vertices_of :: "Buffer \<Rightarrow> OceanVertex list" where
  "vertices_of b = (case buffer_data b of Vertices vs \<Rightarrow> vs | _ \<Rightarrow> [])"

definition indices_of :: "Buffer \<Rightarrow> u16 list" where
  "indices_of b = (case buffer_data b of Indices is \<Rightarrow> is | _ \<Rightarrow> [])"

definition built_tiers :: "Ocean \<Rightarrow> nat option" where
  "built_tiers st = map_option (length \<circ> quad_lod) (build_buffers st)"

text \<open>A configuration to evaluate on: a grid of 64 by 64 cells over a world of 1000 by
  1000, tessellation resolution 8, FFT sizes 256, 128 and 256, the camera at the origin, an
  empty mesh table and no handle set.\<close>

definition ocean0 :: Ocean where
  "ocean0 =
     \<lparr>size_world = (Some 1000, Some 1000),
      size_normal = (Some 8, Some 8),
      grid_width = 64,
      grid_height = 64,
      grid_resolution = 8,
      height_fft_size = 256,
      displacement_fft_size = 128,
      normal_fft_size = 256,
      current_time = Some 0,
      last_camera_position = (Some 0, Some 0, Some 0),
      frustum_planes = None,
      quad_lod = [],
      height_fft = None,
      displacement_fft = None,
      normal_fft = None,
      distribution_buffer = None,
      distribution_buffer_displacement = None,
      distribution_buffer_normal = None,
      ocean_lod = None,
      lod_data = None,
      lod_data_counters = None,
      height_fft_input = None,
      displacement_fft_input = None,
      normal_fft_input = None,
      height_fft_output = None,
      displacement_fft_output = None,
      normal_fft_output = None,
      height_displacement_output = None,
      gradient_jacobian_output = None,
      normal_mip_views = []\<rparr>"

definition on_grid :: "u32 \<Rightarrow> OceanVertex \<Rightarrow> bool" where
  "on_grid g v = (\<exists>x y. x \<le> g \<and> y \<le> g \<and> v = ocean_vertex g x y)"

text \<open>A vertex of the grid of resolution \<open>g\<close> whose weights are those of the if-else chain
  of \<^verbatim>\<open>build_lod\<close> at its position: at most one of them is 255 and the others are 0.\<close>

definition weights_by_chain :: "u32 \<Rightarrow> OceanVertex \<Rightarrow> bool" where
  "weights_by_chain g v =
     (\<exists>x y. x \<le> g \<and> y \<le> g \<and> v = ocean_vertex g x y \<and>
        weights v =
          (if x = 0 then [255, 0, 0, 0]
           else if x = g then [0, 255, 0, 0]
           else if y = 0 then [0, 0, 255, 0]
           else if y = g then [0, 0, 0, 255]
           else [0, 0, 0, 0]) \<and>
        length (filter (\<lambda>w. w = 255) (weights v)) \<le> 1 \<and>
        set (weights v) \<subseteq> {0, 255})"

section \<open>Reading a command buffer\<close>

text \<open>What a recorded command buffer makes the device run, in order: each dispatch with the
  program bound when it is recorded, and each barrier.\<close>

datatype Event = Run "Program option" u32 u32 u32 | Sync u32 u32 u32 u32

fun events :: "Program option \<Rightarrow> CommandBuffer \<Rightarrow> Event list" where
  "events p [] = []"
| "events p (SetProgram q # cmd) = events (Some q) cmd"
| "events p (Dispatch x y z # cmd) = Run p x y z # events p cmd"
| "events p (Barrier a b c d # cmd) = Sync a b c d # events p cmd"
| "events p (_ # cmd) = events p cmd"

text \<open>Each dispatch of the FFT input pass with the program bound and the resolution \<open>N\<close> of
  the push constants in effect.\<close>

fun fft_dispatches ::
  "Program option \<Rightarrow> uvec2 option \<Rightarrow> CommandBuffer \<Rightarrow>
   (Program option \<times> uvec2 option \<times> u32 \<times> u32 \<times> u32) list" where
  "fft_dispatches p n [] = []"
| "fft_dispatches p n (SetProgram q # cmd) = fft_dispatches (Some q) n cmd"
| "fft_dispatches p n (PushConstants (PushFft push) # cmd) =
     fft_dispatches p (Some (fp_N push)) cmd"
| "fft_dispatches p n (Dispatch x y z # cmd) = (p, n, x, y, z) # fft_dispatches p n cmd"
| "fft_dispatches p n (_ # cmd) = fft_dispatches p n cmd"

text \<open>The push constants of the culling dispatch and of the classification dispatch.\<close>

fun cull_push :: "CommandBuffer \<Rightarrow> CullPush option" where
  "cull_push [] = None"
| "cull_push (PushConstants (PushCull push) # cmd) = Some push"
| "cull_push (_ # cmd) = cull_push cmd"

fun lod_map_push :: "CommandBuffer \<Rightarrow> LodMapPush option" where
  "lod_map_push [] = None"
| "lod_map_push (PushConstants (PushLodMap push) # cmd) = Some push"
| "lod_map_push (_ # cmd) = lod_map_push cmd"

section \<open>The culling shader\<close>

text \<open>Modelled from the spec: the shader \<^verbatim>\<open>cull_blocks.comp\<close> is not part of
  renderer/ocean.cpp. Section 4.2: for each grid cell, sample its classified level, test the
  cell against the frustum and, if it is visible, increment that level's counter and append
  the cell to that level's list of tiles (section 3: the tile buffer holds, for each detail
  level, a list of visible-tile records). The counters start at zero. The classified level
  and the outcome of the frustum test are functions of the cell; the cells are those of the
  \<^verbatim>\<open>num_threads\<close> push constant.\<close>

type_synonym cell = "nat \<times> nat"

record CullOutput =
  counters :: "nat list"
  tiles :: "cell list list"

definition cull_cell :: "(cell \<Rightarrow> nat) \<Rightarrow> (cell \<Rightarrow> bool) \<Rightarrow> cell \<Rightarrow> CullOutput \<Rightarrow> CullOutput" where
  "cull_cell level visible c out =
     (if visible c
      then out\<lparr>counters := (counters out)[level c := counters out ! level c + 1],
               tiles := (tiles out)[level c := tiles out ! level c @ [c]]\<rparr>
      else out)"

definition grid_cells :: "ivec2 \<Rightarrow> cell list" where
  "grid_cells num_threads =
     concat (map (\<lambda>y. map (\<lambda>x. (x, y)) [0..<unat (fst num_threads)])
                 [0..<unat (snd num_threads)])"

definition cull_shader :: "(cell \<Rightarrow> nat) \<Rightarrow> (cell \<Rightarrow> bool) \<Rightarrow> ivec2 \<Rightarrow> CullOutput" where
  "cull_shader level visible num_threads =
     fold (cull_cell level visible) (grid_cells num_threads)
       \<lparr>counters = replicate MaxLODIndirect 0, tiles = replicate MaxLODIndirect []\<rparr>"

section \<open>Configurations to evaluate on\<close>

text \<open>\<open>ocean_built\<close> is \<open>ocean0\<close> after \<^verbatim>\<open>on_device_created\<close>, and \<open>ocean_ready\<close> is
  that after \<^verbatim>\<open>add_render_passes\<close> on an empty graph, with the first mip view of the normal
  map and a frustum whose six planes accept every point. The default-constructed
  \<^verbatim>\<open>AttachmentInfo\<close> and \<^verbatim>\<open>BufferInfo\<close> are \<open>att0\<close> and \<open>buf0\<close>.\<close>

definition att0 :: AttachmentInfo where
  "att0 = \<lparr>size_class = SwapchainRelative, size_x = Some 1, size_y = Some 1,
           format = FORMAT_UNDEFINED, levels = 1, aux_usage = 0\<rparr>"

definition buf0 :: BufferInfo where
  "buf0 = \<lparr>info_size = 0, info_usage = 0\<rparr>"

definition ocean_built :: Ocean where
  "ocean_built = (case on_device_created GLFFT_FFT ocean0 of Some (Inr st) \<Rightarrow> st | _ \<Rightarrow> ocean0)"

definition ocean_ready :: Ocean where
  "ocean_ready =
     (fst (add_render_passes att0 buf0 ocean_built []))
       \<lparr>frustum_planes := Some (replicate 6 (Some 0, Some 0, Some 0, Some 1)),
        normal_mip_views := [MipView ''ocean-normal-fft-output'' 0]\<rparr>"

section \<open>Properties of the float model\<close>

text \<open>The exponent is the position of the leading bit, and a rounded result is within half
  a unit in the last place of the exact one.\<close>

lemma pow2_nat: "0 \<le> e \<Longrightarrow> pow2 e = 2 ^ nat e"
  by (simp add: pow2_def)

lemma pow2_neg: "0 < k \<Longrightarrow> pow2 (- k) = 1 / 2 ^ nat k"
  by (simp add: pow2_def)

lemma floor_log2_bounds:
  assumes "0 < a"
  shows "pow2 (floor_log2 a) \<le> a \<and> a < pow2 (floor_log2 a + 1)"
proof (cases "1 \<le> a")
  case True
  define n where "n = \<lfloor>a\<rfloor>"
  have n: "0 < n" using True by (simp add: n_def)
  from bitlen_bounds [OF n] have b: "2 ^ nat (bitlen n - 1) \<le> n" "n < 2 ^ nat (bitlen n)"
    by simp_all
  have bl: "1 \<le> bitlen n" using n by (simp add: bitlen_alt_def)
  have e: "floor_log2 a = bitlen n - 1" using True by (simp add: floor_log2_def n_def)
  have "(of_int (2 ^ nat (bitlen n - 1)) :: rat) \<le> of_int n" using b(1) by (simp only: of_int_le_iff)
  also have "\<dots> \<le> a" by (simp add: n_def)
  finally have lo: "2 ^ nat (bitlen n - 1) \<le> a" by simp
  have "a < of_int (n + 1)" unfolding n_def by linarith
  also have "(of_int (n + 1) :: rat) \<le> of_int (2 ^ nat (bitlen n))"
    using b(2) by (simp only: of_int_le_iff)
  finally have hi: "a < 2 ^ nat (bitlen n)" by simp
  show ?thesis using lo hi bl unfolding e by (simp add: pow2_def)
next
  case False
  then have a1: "a < 1" by simp
  define c where "c = \<lceil>1 / a\<rceil>"
  have inv: "1 < 1 / a" using assms a1 by simp
  then have c2: "2 \<le> c" unfolding c_def by linarith
  then have c1: "0 < c - 1" by simp
  from bitlen_bounds [OF c1] have b: "2 ^ nat (bitlen (c - 1) - 1) \<le> c - 1" "c - 1 < 2 ^ nat (bitlen (c - 1))"
    by simp_all
  define k where "k = bitlen (c - 1)"
  have k1: "1 \<le> k" using c1 by (simp add: k_def bitlen_alt_def)
  have e: "floor_log2 a = - k" using False by (simp add: floor_log2_def c_def k_def)
  have "1 / a \<le> of_int c" unfolding c_def by linarith
  also have "(of_int c :: rat) \<le> of_int (2 ^ nat k)" using b(2) unfolding k_def by (simp only: of_int_le_iff)
  finally have "1 / a \<le> 2 ^ nat k" by simp
  then have lo: "1 / 2 ^ nat k \<le> a" using assms by (simp add: field_simps)
  have "(of_int (2 ^ nat (k - 1)) :: rat) \<le> of_int (c - 1)" using b(1) unfolding k_def by (simp only: of_int_le_iff)
  also have "(of_int (c - 1) :: rat) < 1 / a" unfolding c_def by linarith
  finally have "2 ^ nat (k - 1) < 1 / a" by simp
  then have hi: "a < 1 / 2 ^ nat (k - 1)" using assms by (simp add: field_simps)
  show ?thesis
  proof (cases "k = 1")
    case True
    then show ?thesis using lo hi unfolding e by (simp add: pow2_def)
  next
    case False
    then have "1 < k" using k1 by simp
    then show ?thesis using lo hi unfolding e by (simp add: pow2_def nat_diff_distrib)
  qed
qed


lemma pow2_pos: "0 < pow2 e"
  by (simp add: pow2_def)

lemma round_half_even_error: "\<bar>of_int (round_half_even q) - q\<bar> \<le> 1 / 2"
proof -
  define f :: rat where "f = of_int \<lfloor>q\<rfloor>"
  have "f \<le> q" "q < f + 1" unfolding f_def by linarith+
  then show ?thesis
    unfolding round_half_even_def Let_def f_def [symmetric]
    by (simp add: abs_if f_def [symmetric])
qed

lemma round_to_float_error:
  assumes "round_to_float q = Some r" "q \<noteq> 0"
  shows "\<bar>r - q\<bar> \<le> pow2 (max (floor_log2 \<bar>q\<bar>) (- 126) - 23) / 2"
proof -
  define ulp where "ulp = pow2 (max (floor_log2 \<bar>q\<bar>) (- 126) - 23)"
  have u: "0 < ulp" unfolding ulp_def by (rule pow2_pos)
  have r: "r = of_int (round_half_even (q / ulp)) * ulp"
    using assms by (simp add: round_to_float_def Let_def ulp_def split: if_splits)
  have "r - q = (of_int (round_half_even (q / ulp)) - q / ulp) * ulp"
    using u by (simp add: r field_simps)
  then have "\<bar>r - q\<bar> = \<bar>of_int (round_half_even (q / ulp)) - q / ulp\<bar> * ulp"
    using u by (simp add: abs_mult)
  also have "\<dots> \<le> 1 / 2 * ulp"
    using u round_half_even_error [of "q / ulp"] by (intro mult_right_mono) simp_all
  finally show ?thesis by (simp add: ulp_def)
qed

section \<open>Properties of the mesh builder\<close>

lemma unat_step:
  fixes x g stride :: u32
  assumes "unat g + unat stride < 2 ^ 32" "x \<le> g"
  shows "unat (x + stride) = unat x + unat stride"
proof -
  have "unat x \<le> unat g" using assms(2) by (simp add: word_le_nat_alt)
  then have "unat x + unat stride < 2 ^ LENGTH(32)" using assms(1) by simp
  then show ?thesis by (simp only: unat_add_lem [THEN iffD1])
qed

lemma steps_step:
  fixes x g stride :: u32
  assumes "stride \<noteq> 0" "unat g + unat stride < 2 ^ 32" "x \<le> g"
  shows "steps g stride x = Suc (steps g stride (x + stride))"
proof -
  have s: "0 < unat stride" using assms(1) by (simp add: unat_gt_0)
  have xg: "unat x \<le> unat g" using assms(3) by (simp add: word_le_nat_alt)
  have u: "unat (x + stride) = unat x + unat stride" by (rule unat_step [OF assms(2,3)])
  show ?thesis
  proof (cases "x + stride \<le> g")
    case True
    then have le: "unat x + unat stride \<le> unat g" by (simp add: word_le_nat_alt u)
    have "(unat g - unat x) div unat stride = Suc ((unat g - unat x - unat stride) div unat stride)"
      using le s by (simp add: le_div_geq)
    then show ?thesis using True assms(3) by (simp add: steps_def u)
  next
    case False
    then have "unat g < unat x + unat stride" by (simp add: word_le_nat_alt u)
    then have "(unat g - unat x) div unat stride = 0" using xg by simp
    then show ?thesis using False assms(3) by (simp add: steps_def)
  qed
qed

lemma vertex_row_eq:
  assumes "stride \<noteq> 0" "unat g + unat stride < 2 ^ 32"
  shows "vertex_row g stride y x vs =
         Some (vs @ map (\<lambda>i. ocean_vertex g (x + of_nat i * stride) y) [0..<steps g stride x])"
proof (induction "steps g stride x" arbitrary: x vs)
  case 0
  then have "\<not> x \<le> g" by (simp add: steps_def split: if_splits)
  then show ?case using 0 by (subst vertex_row.simps) simp
next
  case (Suc n)
  then have xg: "x \<le> g" by (simp add: steps_def split: if_splits)
  have st: "steps g stride x = Suc (steps g stride (x + stride))"
    by (rule steps_step [OF assms xg])
  then have n: "n = steps g stride (x + stride)" using Suc(2) by simp
  have "vertex_row g stride y x vs = vertex_row g stride y (x + stride) (vs @ [ocean_vertex g x y])"
    using xg by (subst vertex_row.simps) simp
  also have "\<dots> = Some ((vs @ [ocean_vertex g x y]) @
       map (\<lambda>i. ocean_vertex g (x + stride + of_nat i * stride) y) [0..<steps g stride (x + stride)])"
    by (rule Suc(1) [OF n])
  also have "\<dots> = Some (vs @ map (\<lambda>i. ocean_vertex g (x + of_nat i * stride) y) [0..<steps g stride x])"
    unfolding st map_upt_Suc by (simp add: algebra_simps)
  finally show ?case .
qed

lemma vertex_rows_eq:
  assumes "stride \<noteq> 0" "unat g + unat stride < 2 ^ 32"
  shows "vertex_rows g stride y vs =
         Some (vs @ concat (map (\<lambda>j. map (\<lambda>i. ocean_vertex g (of_nat i * stride) (y + of_nat j * stride))
                                          [0..<steps g stride 0])
                                 [0..<steps g stride y]))"
proof (induction "steps g stride y" arbitrary: y vs)
  case 0
  then have "\<not> y \<le> g" by (simp add: steps_def split: if_splits)
  then show ?case using 0 by (subst vertex_rows.simps) simp
next
  case (Suc n)
  then have yg: "y \<le> g" by (simp add: steps_def split: if_splits)
  have st: "steps g stride y = Suc (steps g stride (y + stride))"
    by (rule steps_step [OF assms yg])
  then have n: "n = steps g stride (y + stride)" using Suc(2) by simp
  let ?row = "\<lambda>y. map (\<lambda>i. ocean_vertex g (of_nat i * stride) y) [0..<steps g stride 0]"
  have "vertex_rows g stride y vs = vertex_rows g stride (y + stride) (vs @ ?row y)"
    using yg by (subst vertex_rows.simps) (simp add: vertex_row_eq [OF assms])
  also have "\<dots> = Some ((vs @ ?row y) @
       concat (map (\<lambda>j. ?row (y + stride + of_nat j * stride)) [0..<steps g stride (y + stride)]))"
    by (rule Suc(1) [OF n])
  also have "\<dots> = Some (vs @ concat (map (\<lambda>j. ?row (y + of_nat j * stride)) [0..<steps g stride y]))"
    unfolding st map_upt_Suc by (simp add: algebra_simps)
  finally show ?case .
qed

lemma vertex_rows_grid:
  assumes "stride \<noteq> 0" "unat g + unat stride < 2 ^ 32"
  shows "vertex_rows g stride 0 [] = Some (grid_vertices g stride)"
  by (simp add: vertex_rows_eq [OF assms] grid_vertices_def)

lemma index_row_eq:
  assumes "unat sz + 1 < 2 ^ 32"
  shows "index_row sz base x inds =
         Some (inds @ concat (map (\<lambda>i. [ucast (base + (x + of_nat i)),
                                          ucast (base + (sz + 1) + (x + of_nat i))])
                                  [0..<steps sz 1 x]))"
proof (induction "steps sz 1 x" arbitrary: x inds)
  case 0
  then have "\<not> x \<le> sz" by (simp add: steps_def split: if_splits)
  then show ?case using 0 by (subst index_row.simps) simp
next
  case (Suc n)
  then have xg: "x \<le> sz" by (simp add: steps_def split: if_splits)
  have a: "unat sz + unat (1 :: u32) < 2 ^ 32" using assms by simp
  have st: "steps sz 1 x = Suc (steps sz 1 (x + 1))"
    by (rule steps_step [OF _ a xg]) simp
  then have n: "n = steps sz 1 (x + 1)" using Suc(2) by simp
  let ?f = "\<lambda>x. [ucast (base + x) :: u16, ucast (base + (sz + 1) + x)]"
  have "index_row sz base x inds = index_row sz base (x + 1) (inds @ ?f x)"
    using xg by (subst index_row.simps) simp
  also have "\<dots> = Some ((inds @ ?f x) @
       concat (map (\<lambda>i. ?f (x + 1 + of_nat i)) [0..<steps sz 1 (x + 1)]))"
    by (rule Suc(1) [OF n])
  also have "\<dots> = Some (inds @ concat (map (\<lambda>i. ?f (x + of_nat i)) [0..<steps sz 1 x]))"
    unfolding st map_upt_Suc by (simp add: algebra_simps)
  finally show ?case .
qed

lemma index_row_strip:
  assumes "unat sz + 1 < 2 ^ 32"
  shows "index_row sz (slc * (sz + 1)) 0 inds = Some (inds @ strip_pairs sz slc)"
  by (simp add: index_row_eq [OF assms] strip_pairs_def steps_def del: upt_Suc)

lemma index_rows_eq:
  assumes "unat sz + 1 < 2 ^ 32"
  shows "slc \<le> sz \<Longrightarrow> index_rows sz slc inds =
         Some (inds @ concat (map (\<lambda>j. strip_row sz (slc + of_nat j)) [0..<unat sz - unat slc]))"
proof (induction "unat sz - unat slc" arbitrary: slc inds)
  case 0
  then have "\<not> slc < sz" by (simp add: word_less_nat_alt)
  then show ?case using 0 by (subst index_rows.simps) simp
next
  case (Suc n)
  then have lt: "slc < sz" by (simp add: word_less_nat_alt)
  then have ult: "unat slc < unat sz" by (simp add: word_less_nat_alt)
  have u: "unat (slc + 1) = unat slc + 1"
    using ult assms by (simp add: unat_add_lem [THEN iffD1])
  have le: "slc + 1 \<le> sz" using ult u by (simp add: word_le_nat_alt)
  have n: "n = unat sz - unat (slc + 1)" using Suc(2) u by simp
  have d: "unat sz - unat slc = Suc (unat sz - unat (slc + 1))" using ult u by simp
  have "index_rows sz slc inds = index_rows sz (slc + 1) (inds @ strip_row sz slc)"
    using lt by (subst index_rows.simps) (simp add: index_row_strip [OF assms] strip_row_def)
  also have "\<dots> = Some ((inds @ strip_row sz slc) @
       concat (map (\<lambda>j. strip_row sz (slc + 1 + of_nat j)) [0..<unat sz - unat (slc + 1)]))"
    by (rule Suc(1) [OF n le])
  also have "\<dots> = Some (inds @ concat (map (\<lambda>j. strip_row sz (slc + of_nat j)) [0..<unat sz - unat slc]))"
    unfolding d map_upt_Suc by (simp add: algebra_simps)
  finally show ?case .
qed

lemma index_rows_strips:
  assumes "unat sz + 1 < 2 ^ 32"
  shows "index_rows sz 0 [] = Some (strip_indices sz)"
  by (simp add: index_rows_eq [OF assms] strip_indices_def)

lemma build_lod_eq:
  assumes "stride \<noteq> 0" "unat (grid_resolution st) + unat stride < 2 ^ 32" "unat sz + 1 < 2 ^ 32"
  shows "build_lod st sz stride =
         Some (st\<lparr>quad_lod := quad_lod st @ [lod_mesh (grid_resolution st) sz stride]\<rparr>)"
  by (simp add: build_lod_def vertex_rows_grid [OF assms(1,2)] index_rows_strips [OF assms(3)]
      lod_mesh_def)

lemma length_grid_vertices:
  "length (grid_vertices g stride) = steps g stride 0 * steps g stride 0"
  by (simp add: grid_vertices_def length_concat comp_def sum_list_triv)

lemma length_strip_row: "length (strip_row sz slc) = 2 * (unat sz + 1) + 1"
  by (simp add: strip_row_def strip_pairs_def length_concat comp_def sum_list_triv del: upt_Suc)

lemma length_strip_indices:
  "length (strip_indices sz) = (2 * (unat sz + 1) + 1) * unat sz"
  by (simp add: strip_indices_def length_concat comp_def sum_list_triv length_strip_row)

lemma tiers_less_iff: "k < tiers n \<longleftrightarrow> 2 * 2 ^ k \<le> n"
proof (induction k arbitrary: n)
  case 0
  show ?case by (subst tiers.simps) simp
next
  case (Suc k)
  have "Suc k < tiers n \<longleftrightarrow> 2 \<le> n \<and> k < tiers (n div 2)"
    by (subst tiers.simps) simp
  also have "\<dots> \<longleftrightarrow> 2 \<le> n \<and> 2 * 2 ^ k \<le> n div 2" by (simp add: Suc.IH)
  also have "\<dots> \<longleftrightarrow> 2 * 2 ^ Suc k \<le> n"
  proof -
    have "(1::nat) \<le> 2 ^ k" by simp
    then have "4 * 2 ^ k \<le> n \<Longrightarrow> 2 \<le> n" by linarith
    then show ?thesis by (auto simp add: less_eq_div_iff_mult_less_eq)
  qed
  finally show ?case .
qed

lemma build_buffers_loop_eq:
  assumes g: "unat g < 2 ^ 31"
  shows "grid_resolution st = g \<Longrightarrow> stride \<noteq> 0 \<Longrightarrow> unat stride * unat sz \<le> unat g \<Longrightarrow>
     build_buffers_loop st sz stride =
       Some (st\<lparr>quad_lod := quad_lod st @
                  map (\<lambda>k. lod_mesh g (drop_bit k sz) (push_bit k stride)) [0..<tiers (unat sz)]\<rparr>)"
proof (induction "tiers (unat sz)" arbitrary: st sz stride)
  case 0
  then have "\<not> 2 \<le> unat sz" by (subst (asm) tiers.simps) (simp split: if_splits)
  then have "\<not> 2 \<le> sz" by (simp add: word_le_nat_alt)
  then show ?case using 0(1) [symmetric] by (subst build_buffers_loop.simps) simp
next
  case (Suc n)
  have t: "tiers (unat sz) = Suc n" using Suc(2) by simp
  then have two: "2 \<le> unat sz" by (subst (asm) tiers.simps) (simp split: if_splits)
  then have two_w: "2 \<le> sz" by (simp add: word_le_nat_alt)
  have s: "0 < unat stride" using Suc(4) by (simp add: unat_gt_0)
  have "2 * unat stride \<le> unat stride * unat sz"
    using mult_le_mono2 [OF two, of "unat stride"] by (simp add: mult.commute)
  then have s2: "2 * unat stride \<le> unat g" by (rule order_trans [OF _ Suc(5)])
  have "unat sz \<le> unat stride * unat sz" using s by (cases "unat stride") simp_all
  then have szg: "unat sz \<le> unat g" by (rule order_trans [OF _ Suc(5)])
  have b: "build_lod st sz stride = Some (st\<lparr>quad_lod := quad_lod st @ [lod_mesh g sz stride]\<rparr>)"
    using build_lod_eq [of stride st sz] Suc(3,4) s2 szg g by simp
  let ?st = "st\<lparr>quad_lod := quad_lod st @ [lod_mesh g sz stride]\<rparr>"
  have usz: "unat (drop_bit 1 sz) = unat sz div 2"
    by (simp add: unat_drop_bit_eq) (simp add: drop_bit_eq_div)
  have ust: "unat (push_bit 1 stride) = 2 * unat stride"
  proof -
    have "unat (2 * stride) = unat (2 :: u32) * unat stride"
      using s2 g by (subst unat_mult_lem [THEN iffD1]) simp_all
    then show ?thesis by (simp add: push_bit_eq_mult mult.commute)
  qed
  have "n = tiers (unat sz div 2)"
    using t two by (subst (asm) tiers.simps) simp
  then have n: "n = tiers (unat (drop_bit 1 sz))" by (simp only: usz)
  have nz: "push_bit 1 stride \<noteq> 0" using ust s by (metis mult_eq_0_iff unat_0 zero_neq_numeral not_less_zero neq0_conv)
  have le: "unat (push_bit 1 stride) * unat (drop_bit 1 sz) \<le> unat g"
  proof -
    have "2 * unat stride * (unat sz div 2) \<le> unat stride * unat sz"
      by (simp add: mult.assoc mult.left_commute)
    then show ?thesis using Suc(5) by (simp only: usz ust)
  qed
  have gr: "grid_resolution ?st = g" using Suc(3) by simp
  have "build_buffers_loop st sz stride = build_buffers_loop ?st (drop_bit 1 sz) (push_bit 1 stride)"
    using two_w b by (subst build_buffers_loop.simps) simp
  also have "\<dots> = Some (?st\<lparr>quad_lod := quad_lod ?st @
       map (\<lambda>k. lod_mesh g (drop_bit k (drop_bit 1 sz)) (push_bit k (push_bit 1 stride)))
         [0..<tiers (unat (drop_bit 1 sz))]\<rparr>)"
    by (rule Suc(1) [OF n gr nz le])
  also have "\<dots> = Some (st\<lparr>quad_lod := quad_lod st @
       map (\<lambda>k. lod_mesh g (drop_bit k sz) (push_bit k stride)) [0..<tiers (unat sz)]\<rparr>)"
    unfolding t n [symmetric] map_upt_Suc by (simp add: drop_bit_drop_bit push_bit_push_bit)
  finally show ?case .
qed

lemmas vertex_row_induct =
  vertex_row.raw_induct [where xa = "((((g, stride), y), x), vs)", unfolded split_conv]
  for g stride y x vs


lemma vertex_row_on_grid_aux:
  assumes "vertex_row g stride y x vs = Some vs'"
  shows "(\<forall>v\<in>set vs. on_grid g v) \<longrightarrow> y \<le> g \<longrightarrow> (\<forall>v\<in>set vs'. on_grid g v)"
proof (rule vertex_row_induct [OF _ assms, where P = "\<lambda>g stride y x vs vs'. 
    (\<forall>v\<in>set vs. on_grid g v) \<longrightarrow> y \<le> g \<longrightarrow> (\<forall>v\<in>set vs'. on_grid g v)"], goal_cases)
  case (1 f g stride y x vertices ga)
  show ?case
  proof (cases "x \<le> g")
    case True
    then have "f g stride y (x + stride) (vertices @ [ocean_vertex g x y]) = Some ga"
      using 1(2) by simp
    note ih = 1(1) [OF this]
    show ?thesis
    proof (intro impI)
      assume a: "\<forall>v\<in>set vertices. on_grid g v" and yg: "y \<le> g"
      have "on_grid g (ocean_vertex g x y)" unfolding on_grid_def using True yg by blast
      then have "\<forall>v\<in>set (vertices @ [ocean_vertex g x y]). on_grid g v" using a by simp
      then show "\<forall>v\<in>set ga. on_grid g v" using ih yg by blast
    qed
  next
    case False
    then show ?thesis using 1(2) by simp
  qed
qed

lemma vertex_rows_on_grid_aux:
  assumes "vertex_rows g stride y vs = Some vs'"
  shows "(\<forall>v\<in>set vs. on_grid g v) \<longrightarrow> (\<forall>v\<in>set vs'. on_grid g v)"
proof (rule vertex_rows.raw_induct [OF _ assms, where P = "\<lambda>g stride y vs vs'. 
    (\<forall>v\<in>set vs. on_grid g v) \<longrightarrow> (\<forall>v\<in>set vs'. on_grid g v)"], goal_cases)
  case (1 f g stride y vertices ga)
  show ?case
  proof (cases "y \<le> g")
    case True
    then have "vertex_row g stride y 0 vertices \<bind> f g stride (y + stride) = Some ga"
      using 1(2) by simp
    then obtain vs1 where r: "vertex_row g stride y 0 vertices = Some vs1"
      and rs: "f g stride (y + stride) vs1 = Some ga"
      by (cases "vertex_row g stride y 0 vertices") simp_all
    from vertex_row_on_grid_aux [OF r] 1(1) [OF rs] True show ?thesis by blast
  next
    case False
    then show ?thesis using 1(2) by simp
  qed
qed

lemma weights_ocean_vertex:
  "weights (ocean_vertex g x y) =
     (if x = 0 then [255, 0, 0, 0]
      else if x = g then [0, 255, 0, 0]
      else if y = 0 then [0, 0, 255, 0]
      else if y = g then [0, 0, 0, 255]
      else [0, 0, 0, 0])"
  by (simp add: ocean_vertex_def Let_def eval_nat_numeral)

lemma build_buffers_eq:
  assumes "unat (grid_resolution st) < 2 ^ 31"
  shows "build_buffers st =
     Some (st\<lparr>quad_lod := quad_lod st @
              map (\<lambda>k. lod_mesh (grid_resolution st) (drop_bit k (grid_resolution st)) (2 ^ k))
                  [0..<tiers (unat (grid_resolution st))]\<rparr>)"
  unfolding build_buffers_def
  using build_buffers_loop_eq [OF assms refl, of 1 "grid_resolution st"] by simp

lemma unat_drop_bit_div:
  fixes g :: u32
  shows "unat (drop_bit k g) = unat g div 2 ^ k"
  by (subst unat_drop_bit_eq) (rule drop_bit_eq_div)

lemma unat_tier_stride:
  fixes g :: u32
  assumes "unat g < 2 ^ 31" "k < tiers (unat g)"
  shows "unat (2 ^ k :: u32) = 2 ^ k" "2 * 2 ^ k \<le> unat g"
proof -
  show le: "2 * 2 ^ k \<le> unat g" using assms(2) by (simp add: tiers_less_iff)
  then have "(2::nat) ^ Suc k < 2 ^ 31" using assms(1) by simp
  then have "Suc k < 31" by (rule power_less_imp_less_exp [rotated]) simp
  then have "(2::nat) ^ k < 2 ^ 32" by (intro power_strict_increasing) simp_all
  moreover have "(2 ^ k :: u32) = of_nat (2 ^ k)" by simp
  ultimately show "unat (2 ^ k :: u32) = 2 ^ k" by (simp only: unat_of_nat) simp
qed

lemma steps_tier:
  fixes g :: u32
  assumes "unat g < 2 ^ 31" "k < tiers (unat g)"
  shows "steps g (2 ^ k) 0 = unat (drop_bit k g) + 1"
  by (simp only: steps_def unat_tier_stride (1) [OF assms] unat_drop_bit_div) simp

lemma tier_no_wrap:
  fixes g :: u32
  assumes "unat g < 2 ^ 31" "k < tiers (unat g)"
  shows "2 ^ k \<noteq> (0 :: u32)" "unat g + unat (2 ^ k :: u32) < 2 ^ 32"
    "unat (drop_bit k g) + 1 < 2 ^ 32" "2 \<le> drop_bit k g"
proof -
  note u = unat_tier_stride [OF assms]
  show "2 ^ k \<noteq> (0 :: u32)" using u(1) by (metis power_not_zero unat_0 zero_neq_numeral)
  show "unat g + unat (2 ^ k :: u32) < 2 ^ 32" using u assms(1) by simp
  have "unat g div 2 ^ k \<le> unat g" by (rule div_le_dividend)
  then have "unat g div 2 ^ k < 2 ^ 31" using assms(1) by (rule le_less_trans)
  then have "unat g div 2 ^ k + 1 < 2 ^ 32" by simp
  then show "unat (drop_bit k g) + 1 < 2 ^ 32" by (simp only: unat_drop_bit_div)
  have "2 \<le> unat g div 2 ^ k" using u(2) by (simp add: less_eq_div_iff_mult_less_eq)
  then have "unat (2 :: u32) \<le> unat (drop_bit k g)" by (simp only: unat_drop_bit_div) simp
  then show "2 \<le> drop_bit k g" by (simp only: word_le_nat_alt)
qed

lemma last_tier_small:
  fixes g :: u32
  shows "drop_bit (tiers (unat g)) g < 2"
proof -
  have "\<not> 2 * 2 ^ tiers (unat g) \<le> unat g" using tiers_less_iff [of "tiers (unat g)" "unat g"] by simp
  then have "unat g < 2 * 2 ^ tiers (unat g)" by simp
  then have "unat g div 2 ^ tiers (unat g) < 2" by (rule less_mult_imp_div_less)
  then have "unat (drop_bit (tiers (unat g)) g) < unat (2 :: u32)" by (simp only: unat_drop_bit_div) simp
  then show ?thesis by (simp only: word_less_nat_alt)
qed

lemma tiers_8: "tiers 8 = 3"
  by (simp add: tiers.simps)

lemma on_grid_weights: "on_grid g v \<Longrightarrow> weights_by_chain g v"
proof -
  assume "on_grid g v"
  then obtain x y where xy: "x \<le> g" "y \<le> g" and veq: "v = ocean_vertex g x y"
    unfolding on_grid_def by blast
  note w = weights_ocean_vertex [of g x y]
  have "length (filter (\<lambda>w. w = 255) (weights v)) \<le> 1 \<and> set (weights v) \<subseteq> {0, 255}"
    unfolding veq w by simp
  then show ?thesis unfolding weights_by_chain_def using xy veq w by blast
qed

lemma build_lod_weights:
  assumes "build_lod st sz stride = Some st'"
  shows "\<exists>lod. st' = st\<lparr>quad_lod := quad_lod st @ [lod]\<rparr> \<and>
           (\<forall>v\<in>set (vertices_of (vbo lod)). weights_by_chain (grid_resolution st) v)"
proof -
  from assms obtain vertices indices where
    vs: "vertex_rows (grid_resolution st) stride 0 [] = Some vertices"
    and st': "st' = st\<lparr>quad_lod := quad_lod st @
        [\<lparr>vbo = \<lparr>buffer_size = length vertices * 8, buffer_usage = VERTEX_BUFFER,
                 buffer_data = Vertices vertices\<rparr>,
          ibo = \<lparr>buffer_size = length indices * 2, buffer_usage = INDEX_BUFFER,
                 buffer_data = Indices indices\<rparr>,
          count = length indices\<rparr>]\<rparr>"
    by (auto simp add: build_lod_def split: bind_splits)
  have grid: "\<forall>v\<in>set vertices. on_grid (grid_resolution st) v"
    using vertex_rows_on_grid_aux [OF vs] by simp
  then have "\<forall>v\<in>set vertices. weights_by_chain (grid_resolution st) v"
    by (blast intro: on_grid_weights)
  then show ?thesis unfolding st' by (intro exI conjI) (rule refl, simp add: vertices_of_def)
qed

lemma build_buffers_loop_weights:
  assumes "build_buffers_loop st sz stride = Some st'"
  shows "\<exists>new. st' = st\<lparr>quad_lod := quad_lod st @ new\<rparr> \<and>
           (\<forall>lod\<in>set new. \<forall>v\<in>set (vertices_of (vbo lod)).
              weights_by_chain (grid_resolution st) v)"
proof (rule build_buffers_loop.raw_induct [OF _ assms, where P = "\<lambda>st sz stride st'.
    \<exists>new. st' = st\<lparr>quad_lod := quad_lod st @ new\<rparr> \<and>
           (\<forall>lod\<in>set new. \<forall>v\<in>set (vertices_of (vbo lod)).
              weights_by_chain (grid_resolution st) v)"], goal_cases)
  case (1 f st sz stride st')
  show ?case
  proof (cases "2 \<le> sz")
    case True
    then have "build_lod st sz stride \<bind> (\<lambda>s. f s (drop_bit 1 sz) (push_bit 1 stride)) = Some st'"
      using 1(2) by simp
    then obtain st1 where b: "build_lod st sz stride = Some st1"
      and r: "f st1 (drop_bit 1 sz) (push_bit 1 stride) = Some st'"
      by (cases "build_lod st sz stride") simp_all
    from build_lod_weights [OF b] obtain lod where
      s1: "st1 = st\<lparr>quad_lod := quad_lod st @ [lod]\<rparr>"
      and l: "\<forall>v\<in>set (vertices_of (vbo lod)). weights_by_chain (grid_resolution st) v"
      by blast
    from 1(1) [OF r] obtain new where
      s': "st' = st1\<lparr>quad_lod := quad_lod st1 @ new\<rparr>"
      and n: "\<forall>lod\<in>set new. \<forall>v\<in>set (vertices_of (vbo lod)).
              weights_by_chain (grid_resolution st1) v"
      by blast
    have g: "grid_resolution st1 = grid_resolution st" by (simp add: s1)
    have "st' = st\<lparr>quad_lod := quad_lod st @ (lod # new)\<rparr>" by (simp add: s' s1)
    moreover have "\<forall>lod'\<in>set (lod # new). \<forall>v\<in>set (vertices_of (vbo lod')).
              weights_by_chain (grid_resolution st) v"
      using l n unfolding g by simp
    ultimately show ?thesis by blast
  next
    case False
    then have "st' = st" using 1(2) by simp
    then have "st' = st\<lparr>quad_lod := quad_lod st @ []\<rparr>" by simp
    then show ?thesis by (intro exI [of _ "[]"]) simp
  qed
qed

section \<open>The configurations evaluated\<close>

lemma tiers_lods_8:
  "map (\<lambda>k. lod_mesh 8 (drop_bit k 8) (2 ^ k)) [0..<tiers 8] =
   [lod_mesh 8 8 1, lod_mesh 8 4 2, lod_mesh 8 2 4]"
proof -
  have "[0..<3] = [0, 1, 2 :: nat]" by (simp add: eval_nat_numeral)
  then show ?thesis by (simp add: tiers_8 drop_bit_eq_div)
qed

lemma is_power_of_two_sizes: "is_power_of_two 256" "is_power_of_two 128"
  by (simp_all add: is_power_of_two_def)

lemma on_device_created_ocean0:
  "on_device_created GLFFT_FFT ocean0 =
     Some (Inr (init_distributions
       (ocean0\<lparr>height_fft := Some (fft_args 256 ComplexToReal ImageReal),
               displacement_fft := Some (fft_args 128 ComplexToComplex Image),
               normal_fft := Some (fft_args 256 ComplexToComplex Image),
               quad_lod := [lod_mesh 8 8 1, lod_mesh 8 4 2, lod_mesh 8 2 4]\<rparr>)))"
proof -
  let ?st = "ocean0\<lparr>height_fft := Some (fft_args 256 ComplexToReal ImageReal),
               displacement_fft := Some (fft_args 128 ComplexToComplex Image),
               normal_fft := Some (fft_args 256 ComplexToComplex Image)\<rparr>"
  have g: "grid_resolution ?st = 8" and q: "quad_lod ?st = []" by (simp_all add: ocean0_def)
  have h: "unat (grid_resolution ?st) < 2 ^ 31" by (simp add: g)
  have b: "build_buffers ?st = Some (?st\<lparr>quad_lod := [lod_mesh 8 8 1, lod_mesh 8 4 2, lod_mesh 8 2 4]\<rparr>)"
    unfolding build_buffers_eq [OF h] g q by (simp add: tiers_lods_8)
  have s: "height_fft_size ocean0 = 256" "displacement_fft_size ocean0 = 128"
    "normal_fft_size ocean0 = 256" by (simp_all add: ocean0_def)
  show ?thesis
    unfolding on_device_created_def s
    by (simp add: GLFFT_FFT_def fft_args_def is_power_of_two_sizes b [unfolded fft_args_def])
qed

lemma ocean_built_eq:
  "ocean_built = init_distributions
       (ocean0\<lparr>height_fft := Some (fft_args 256 ComplexToReal ImageReal),
               displacement_fft := Some (fft_args 128 ComplexToComplex Image),
               normal_fft := Some (fft_args 256 ComplexToComplex Image),
               quad_lod := [lod_mesh 8 8 1, lod_mesh 8 4 2, lod_mesh 8 2 4]\<rparr>)"
  by (simp add: ocean_built_def on_device_created_ocean0)

lemma ocean_ready_fields:
  "quad_lod ocean_ready = [lod_mesh 8 8 1, lod_mesh 8 4 2, lod_mesh 8 2 4]"
  "grid_width ocean_ready = 64" "grid_height ocean_ready = 64" "grid_resolution ocean_ready = 8"
  "size_world ocean_ready = (Some 1000, Some 1000)"
  "size_normal ocean_ready = (Some 8, Some 8)"
  "last_camera_position ocean_ready = (Some 0, Some 0, Some 0)"
  "current_time ocean_ready = Some 0"
  "height_fft_size ocean_ready = 256" "displacement_fft_size ocean_ready = 128"
  "normal_fft_size ocean_ready = 256"
  "ocean_lod ocean_ready = Some ''ocean-lods''"
  "lod_data ocean_ready = Some ''ocean-lod-data''"
  "lod_data_counters ocean_ready = Some ''ocean-lod-counter''"
  "frustum_planes ocean_ready = Some (replicate 6 (Some 0, Some 0, Some 0, Some 1))"
  "height_fft_input ocean_ready = Some ''ocean-height-fft-input''"
  "displacement_fft_input ocean_ready = Some ''ocean-displacement-fft-input''"
  "normal_fft_input ocean_ready = Some ''ocean-normal-fft-input''"
  "normal_fft_output ocean_ready = Some ''ocean-normal-fft-output''"
  "height_fft_output ocean_ready = Some ''ocean-height-fft-output''"
  "displacement_fft_output ocean_ready = Some ''ocean-displacement-fft-output''"
  "normal_mip_views ocean_ready = [MipView ''ocean-normal-fft-output'' 0]"
  "height_displacement_output ocean_ready = Some ''ocean-height-displacement-output''"
  "gradient_jacobian_output ocean_ready = Some ''ocean-gradient-jacobian-output''"
  "distribution_buffer ocean_ready =
     Some \<lparr>buffer_size = 524288, buffer_usage = STORAGE_BUFFER, buffer_data = ZeroInitialized\<rparr>"
  "distribution_buffer_displacement ocean_ready =
     Some \<lparr>buffer_size = 131072, buffer_usage = STORAGE_BUFFER, buffer_data = ZeroInitialized\<rparr>"
  "distribution_buffer_normal ocean_ready =
     Some \<lparr>buffer_size = 524288, buffer_usage = STORAGE_BUFFER, buffer_data = ZeroInitialized\<rparr>"
  by (simp_all add: ocean_ready_def ocean_built_eq add_render_passes_def add_lod_update_pass_def
      add_fft_update_pass_def init_distributions_def ocean0_def Let_def)

lemma float_eval:
  "float_of_uint 64 = Some 64"
  "float_of_uint 8 = Some 8"
  "float_of_uint 256 = Some 256"
  "float_of_int 64 = Some 64"
  "f_div (Some 64) (Some 1000) = Some (8589935 / 134217728)"
  "f_div (Some 1000) (Some 64) = Some (125 / 8)"
  "f_mul (Some 0) (Some (8589935 / 134217728)) = Some 0"
  "f_mul (Some 0) (Some (125 / 8)) = Some 0"
  "f_mul (Some (1 / 2)) (Some 1000) = Some 500"
  "f_sub (Some 0) (Some 500) = Some (- 500)"
  "f_round (Some 0) = Some 0"
  "int_of_float (Some 0) = Some 0"
  "f_div (Some 1) (Some 64) = Some (1 / 64)"
  "f_sub (float_of_size 3) (Some 1) = Some 2"
  by code_simp+

lemma snapped_center_ready: "get_snapped_grid_center ocean_ready = (Some 0, Some 0)"
  by (simp add: get_snapped_grid_center_def ocean_ready_fields v2_div_def v2_mul_def
      v2_round_def v2_of_uint_def xz_def float_eval Let_def)

lemma grid_size_ready: "get_grid_size ocean_ready = (Some (125 / 8), Some (125 / 8))"
  by (simp add: get_grid_size_def ocean_ready_fields v2_div_def v2_of_uint_def float_eval)

lemma shift_64: "signed_drop_bit 1 (64 :: u32) = 32"
  by code_simp

lemma grid_base_coord_ready: "get_grid_base_coord ocean_ready = Some (- 32, - 32)"
  by (simp add: get_grid_base_coord_def snapped_center_ready iv2_of_vec2_def iv2_sub_def
      iv2_shr_def ocean_ready_fields float_eval shift_64)

section \<open>The command stream of the LOD update pass\<close>

lemma build_lod_map_SomeD:
  assumes "build_lod_map st cmd = Some cmd'"
  shows "\<exists>lod off push. ocean_lod st = Some lod \<and> get_grid_base_coord st = Some off \<and>
     cmd' = cmd @ [SetStorageTexture 0 0 (GraphTexture lod), PushConstants (PushLodMap push),
       SetProgram (ComputeProgram ''builtin://shaders/ocean/update_lod.comp'' []),
       Dispatch ((grid_width st + 7) div 8) ((grid_height st + 7) div 8) 1]"
  using assms by (auto simp add: build_lod_map_def Let_def split: bind_splits)

lemma upt_16: "[0..<16] = [0, 1, 2, 3, 4, 5, 6, 7, 8, 9, 10, 11, 12, 13, 14, 15 :: nat]"
  by (simp add: upt_rec_numeral upt_conv_Cons)

lemma vertex_counts_eq:
  "fold (\<lambda>i vc. vc[i := f i]) [0..<16] (replicate 16 z) = map f [0..<16]"
  by (simp add: upt_16 eval_nat_numeral)

lemma init_counter_buffer_eq:
  "init_counter_buffer st cmd =
     map_option (\<lambda>c. cmd @
       [SetStorageBuffer 0 0 (GraphBuffer c),
        ConstantDataU32 0 1
          (map (\<lambda>i. if i < length (quad_lod st) then of_nat (count (quad_lod st ! i)) else 0)
               [0..<16]),
        SetProgram (ComputeProgram ''builtin://shaders/ocean/init_counter_buffer.comp''
                      [(''NUM_COUNTERS'', 8)]),
        Dispatch 1 1 1]) (lod_data_counters st)"
  by (cases "lod_data_counters st")
     (simp_all add: init_counter_buffer_def Let_def MaxLODIndirect_def vertex_counts_eq)

lemma cull_blocks_SomeD:
  assumes "cull_blocks st cmd = Some cmd'"
  shows "\<exists>planes off lod ld lc push. frustum_planes st = Some planes \<and>
     get_grid_base_coord st = Some off \<and> ocean_lod st = Some lod \<and> lod_data st = Some ld \<and>
     lod_data_counters st = Some lc \<and>
     cmd' = cmd @ [ConstantDataVec4 0 3 (take 6 planes), PushConstants (PushCull push),
       SetStorageBuffer 0 0 (GraphBuffer ld), SetStorageBuffer 0 1 (GraphBuffer lc),
       SetTexture 0 2 (GraphTexture lod) NearestWrap,
       SetProgram (ComputeProgram ''builtin://shaders/ocean/cull_blocks.comp'' []),
       Dispatch ((grid_width st + 7) div 8) ((grid_height st + 7) div 8) 1]"
  using assms by (auto simp add: cull_blocks_def Let_def split: bind_splits)

lemma build_lod_map_None:
  "build_lod_map st cmd = None \<longleftrightarrow> ocean_lod st = None \<or> get_grid_base_coord st = None"
  by (auto simp add: build_lod_map_def Let_def split: bind_splits)

lemma cull_blocks_None:
  "cull_blocks st cmd = None \<longleftrightarrow>
     frustum_planes st = None \<or> get_grid_base_coord st = None \<or> ocean_lod st = None \<or>
     lod_data st = None \<or> lod_data_counters st = None"
  by (auto simp add: cull_blocks_def Let_def split: bind_splits)

lemma update_lod_pass_None:
  "update_lod_pass st cmd = None \<longleftrightarrow>
     ocean_lod st = None \<or> lod_data st = None \<or> lod_data_counters st = None \<or>
     frustum_planes st = None \<or> get_grid_base_coord st = None"
  by (auto simp add: update_lod_pass_def Let_def build_lod_map_None cull_blocks_None
      init_counter_buffer_eq split: bind_splits)

lemma update_lod_pass_SomeD:
  assumes "update_lod_pass st cmd = Some cmd'"
  shows "\<exists>lod off push1 lc planes ld push2.
     ocean_lod st = Some lod \<and> get_grid_base_coord st = Some off \<and>
     lod_data_counters st = Some lc \<and> frustum_planes st = Some planes \<and>
     lod_data st = Some ld \<and>
     cmd' = cmd @
      [SetStorageTexture 0 0 (GraphTexture lod), PushConstants (PushLodMap push1),
       SetProgram (ComputeProgram ''builtin://shaders/ocean/update_lod.comp'' []),
       Dispatch ((grid_width st + 7) div 8) ((grid_height st + 7) div 8) 1,
       SetStorageBuffer 0 0 (GraphBuffer lc),
       ConstantDataU32 0 1
          (map (\<lambda>i. if i < length (quad_lod st) then of_nat (count (quad_lod st ! i)) else 0)
               [0..<16]),
       SetProgram (ComputeProgram ''builtin://shaders/ocean/init_counter_buffer.comp''
                      [(''NUM_COUNTERS'', 8)]),
       Dispatch 1 1 1,
       Barrier VK_PIPELINE_STAGE_COMPUTE_SHADER_BIT VK_ACCESS_SHADER_WRITE_BIT
               VK_PIPELINE_STAGE_COMPUTE_SHADER_BIT
               (VK_ACCESS_SHADER_WRITE_BIT OR VK_ACCESS_SHADER_READ_BIT),
       ConstantDataVec4 0 3 (take 6 planes), PushConstants (PushCull push2),
       SetStorageBuffer 0 0 (GraphBuffer ld), SetStorageBuffer 0 1 (GraphBuffer lc),
       SetTexture 0 2 (GraphTexture lod) NearestWrap,
       SetProgram (ComputeProgram ''builtin://shaders/ocean/cull_blocks.comp'' []),
       Dispatch ((grid_width st + 7) div 8) ((grid_height st + 7) div 8) 1]"
proof -
  from assms obtain c1 c2 where
    a: "build_lod_map st cmd = Some c1" and b: "init_counter_buffer st c1 = Some c2"
    and c: "cull_blocks st (c2 @
       [Barrier VK_PIPELINE_STAGE_COMPUTE_SHADER_BIT VK_ACCESS_SHADER_WRITE_BIT
               VK_PIPELINE_STAGE_COMPUTE_SHADER_BIT
               (VK_ACCESS_SHADER_WRITE_BIT OR VK_ACCESS_SHADER_READ_BIT)]) = Some cmd'"
    by (auto simp add: update_lod_pass_def Let_def split: bind_splits)
  from build_lod_map_SomeD [OF a] obtain lod off push1 where
    1: "ocean_lod st = Some lod" "get_grid_base_coord st = Some off"
    "c1 = cmd @ [SetStorageTexture 0 0 (GraphTexture lod), PushConstants (PushLodMap push1),
       SetProgram (ComputeProgram ''builtin://shaders/ocean/update_lod.comp'' []),
       Dispatch ((grid_width st + 7) div 8) ((grid_height st + 7) div 8) 1]"
    by blast
  from b obtain lc where 2: "lod_data_counters st = Some lc"
    "c2 = c1 @ [SetStorageBuffer 0 0 (GraphBuffer lc),
       ConstantDataU32 0 1
          (map (\<lambda>i. if i < length (quad_lod st) then of_nat (count (quad_lod st ! i)) else 0)
               [0..<16]),
       SetProgram (ComputeProgram ''builtin://shaders/ocean/init_counter_buffer.comp''
                      [(''NUM_COUNTERS'', 8)]),
       Dispatch 1 1 1]"
    unfolding init_counter_buffer_eq by blast
  from cull_blocks_SomeD [OF c] 1(1) 2(1) obtain planes ld push2 where
    3: "frustum_planes st = Some planes" "lod_data st = Some ld"
    "cmd' = (c2 @
       [Barrier VK_PIPELINE_STAGE_COMPUTE_SHADER_BIT VK_ACCESS_SHADER_WRITE_BIT
               VK_PIPELINE_STAGE_COMPUTE_SHADER_BIT
               (VK_ACCESS_SHADER_WRITE_BIT OR VK_ACCESS_SHADER_READ_BIT)]) @
      [ConstantDataVec4 0 3 (take 6 planes), PushConstants (PushCull push2),
       SetStorageBuffer 0 0 (GraphBuffer ld), SetStorageBuffer 0 1 (GraphBuffer lc),
       SetTexture 0 2 (GraphTexture lod) NearestWrap,
       SetProgram (ComputeProgram ''builtin://shaders/ocean/cull_blocks.comp'' []),
       Dispatch ((grid_width st + 7) div 8) ((grid_height st + 7) div 8) 1]"
    by auto
  show ?thesis
    apply (rule exI [of _ lod], rule exI [of _ off], rule exI [of _ push1], rule exI [of _ lc],
        rule exI [of _ planes], rule exI [of _ ld], rule exI [of _ push2])
    apply (simp add: 1 2 3)
    done
qed

section \<open>The command stream of the draw\<close>

lemma fold_list_update_upt:
  "n \<le> length xs \<Longrightarrow> fold (\<lambda>i a. a[i := f i]) [0..<n] xs = map f [0..<n] @ drop n xs"
proof (induction n)
  case 0
  show ?case by simp
next
  case (Suc n)
  then have n: "n < length xs" by simp
  have "fold (\<lambda>i a. a[i := f i]) [0..<Suc n] xs = (map f [0..<n] @ drop n xs)[n := f n]"
    using Suc by simp
  also have "\<dots> = map f [0..<n] @ (drop n xs)[0 := f n]"
    by (simp add: list_update_append)
  also have "drop n xs = xs ! n # drop (Suc n) xs" using n by (simp add: Cons_nth_drop_Suc)
  finally show ?case by simp
qed

lemma render_lods_eq:
  assumes "\<forall>lod\<in>set ls. array_at (vbos info) lod = Some (vb lod) \<and>
                         array_at (ibos info) lod = Some (ib lod)"
  shows "render_lods info ls cmd = Some (cmd @ concat (map (\<lambda>lod.
           [SetUniformBuffer 3 0 (ubo info)
              (unat (lod_stride info * of_nat lod)) (unat (lod_stride info)),
            SetVertexBinding 0 (DeviceBuffer (vb lod)) 0 8,
            SetIndexBuffer (DeviceBuffer (ib lod)) 0 UINT16,
            DrawIndexedIndirect (indirect info) (8 * 4 * lod) 1 (8 * 4)]) ls))"
  using assms by (induction ls arbitrary: cmd) (simp_all add: Let_def)

lemma render_instances_eq:
  assumes "render_lods info [0..<unat (lods info)] = (\<lambda>cmd. Some (cmd @ block))"
  shows "render_instances info is cmd = Some (cmd @ concat (replicate (length is)
           ([PushConstants (PushOceanData (ocean_data info)),
             SetTexture 2 0 (heightmap info) LinearWrap,
             SetTexture 2 1 (lod_map info) LinearWrap,
             SetTexture 2 2 (grad_jacobian info) TrilinearWrap,
             SetTexture 2 3 (normal info) TrilinearWrap] @ block)))"
  by (induction "is" arbitrary: cmd) (simp_all add: Let_def assms)

lemma unat_of_nat_small: "n \<le> 8 \<Longrightarrow> unat (of_nat n :: u32) = n"
  by (simp add: unat_of_nat)


lemma counts_ready:
  "map (\<lambda>i. if i < length (quad_lod ocean_ready)
             then of_nat (count (quad_lod ocean_ready ! i)) else 0) [0..<16] =
   [152, 44, 14, 0, 0, 0, 0, 0, 0, 0, 0, 0, 0, 0, 0, 0 :: u32]"
  by (simp add: ocean_ready_fields upt_16 lod_mesh_def length_strip_indices)

section \<open>The FFT input pass and construction\<close>

lemma ocean_ready_ffts:
  "height_fft ocean_ready = Some (fft_args 256 ComplexToReal ImageReal)"
  "displacement_fft ocean_ready = Some (fft_args 128 ComplexToComplex Image)"
  "normal_fft ocean_ready = Some (fft_args 256 ComplexToComplex Image)"
  by (simp_all add: ocean_ready_def ocean_built_eq add_render_passes_def add_lod_update_pass_def
      add_fft_update_pass_def init_distributions_def ocean0_def Let_def)

lemma div_64: "(256 :: u32) div 64 = 4" "(128 :: u32) div 64 = 2"
  by code_simp+

lemma fft_input_dispatches:
  assumes "update_fft_input st cmd = Some cmd'"
  shows "\<exists>new. cmd' = cmd @ new \<and> fft_dispatches None None new =
     [(Some (generate_fft []), Some (height_fft_size st, height_fft_size st),
       height_fft_size st div 64, height_fft_size st, 1),
      (Some (generate_fft [(''GRADIENT_DISPLACEMENT'', 1)]),
       Some (normal_fft_size st, normal_fft_size st),
       displacement_fft_size st div 64, displacement_fft_size st, 1),
      (Some (generate_fft [(''GRADIENT_NORMAL'', 1)]),
       Some (normal_fft_size st, normal_fft_size st),
       normal_fft_size st div 64, normal_fft_size st, 1)]"
  using assms by (auto simp add: update_fft_input_def Let_def split: bind_splits)

lemma build_buffers_grid_dims:
  assumes "unat (grid_resolution st) < 2 ^ 31"
  shows "\<exists>st'. build_buffers st = Some st' \<and> grid_width st' = grid_width st \<and>
           grid_height st' = grid_height st"
  by (simp add: build_buffers_eq [OF assms])

lemma glfft_accepts:
  "GLFFT_FFT (fft_args 256 ty out) = Inr (fft_args 256 ty out)"
  "GLFFT_FFT (fft_args 128 ty out) = Inr (fft_args 128 ty out)"
  by (simp_all add: GLFFT_FFT_def fft_args_def is_power_of_two_sizes)

lemma glfft_rejects:
  "\<not> is_power_of_two n \<Longrightarrow> GLFFT_FFT (fft_args n ty out) = Inl ConfigurationError"
  by (simp add: GLFFT_FFT_def fft_args_def)

lemma glfft_accepts_pot:
  "is_power_of_two n \<Longrightarrow> GLFFT_FFT (fft_args n ty out) = Inr (fft_args n ty out)"
  by (simp add: GLFFT_FFT_def fft_args_def)

lemma not_pot_100: "\<not> is_power_of_two 100"
  by (simp add: is_power_of_two_def)

section \<open>The culling shader and the grid scenario\<close>

lemma cull_cell_sums:
  assumes "level c < length (counters out)" "length (tiles out) = length (counters out)"
  shows "sum_list (counters (cull_cell level visible c out)) =
           sum_list (counters out) + (if visible c then 1 else 0)"
    and "sum_list (map length (tiles (cull_cell level visible c out))) =
           sum_list (map length (tiles out)) + (if visible c then 1 else 0)"
    and "length (counters (cull_cell level visible c out)) = length (counters out)"
    and "length (tiles (cull_cell level visible c out)) = length (tiles out)"
proof -
  have le: "counters out ! level c \<le> sum_list (counters out)"
    using assms(1) by (simp add: member_le_sum_list)
  have "tiles out ! level c \<in> set (tiles out)" using assms by (intro nth_mem) simp
  then have "length (tiles out ! level c) \<in> set (map length (tiles out))" by simp
  then have le2: "length (tiles out ! level c) \<le> sum_list (map length (tiles out))"
    by (rule member_le_sum_list) simp
  show "sum_list (counters (cull_cell level visible c out)) =
           sum_list (counters out) + (if visible c then 1 else 0)"
    using assms(1) le by (simp add: cull_cell_def sum_list_update)
  show "sum_list (map length (tiles (cull_cell level visible c out))) =
           sum_list (map length (tiles out)) + (if visible c then 1 else 0)"
    using assms le2 by (simp add: cull_cell_def map_update sum_list_update)
  show "length (counters (cull_cell level visible c out)) = length (counters out)"
    by (simp add: cull_cell_def)
  show "length (tiles (cull_cell level visible c out)) = length (tiles out)"
    by (simp add: cull_cell_def)
qed

lemma cull_fold_sums:
  assumes "\<forall>c\<in>set cs. level c < length (counters out)"
    and "length (tiles out) = length (counters out)"
  shows "sum_list (counters (fold (cull_cell level visible) cs out)) =
           sum_list (counters out) + length (filter visible cs) \<and>
         sum_list (map length (tiles (fold (cull_cell level visible) cs out))) =
           sum_list (map length (tiles out)) + length (filter visible cs)"
  using assms
proof (induction cs arbitrary: out)
  case Nil
  show ?case by simp
next
  case (Cons c cs)
  have l: "level c < length (counters out)" using Cons.prems(1) by simp
  note s = cull_cell_sums [where level = level and c = c and out = out and visible = visible,
      OF l Cons.prems(2)]
  have "\<forall>c'\<in>set cs. level c' < length (counters (cull_cell level visible c out))"
    using Cons.prems(1) by (simp add: s(3))
  moreover have "length (tiles (cull_cell level visible c out)) =
      length (counters (cull_cell level visible c out))"
    using Cons.prems(2) by (simp add: s(3,4))
  ultimately show ?case using Cons.IH [of "cull_cell level visible c out"]
    by (simp add: s(1,2))
qed

lemma length_grid_cells: "length (grid_cells (w, h)) = unat w * unat h"
  by (simp add: grid_cells_def length_concat comp_def sum_list_triv)

lemma cull_all_visible:
  assumes "\<forall>c. level c < MaxLODIndirect"
  shows "sum_list (counters (cull_shader level (\<lambda>_. True) (w, h))) = unat w * unat h"
    and "sum_list (map length (tiles (cull_shader level (\<lambda>_. True) (w, h)))) = unat w * unat h"
  using cull_fold_sums [of "grid_cells (w, h)" level
      "\<lparr>counters = replicate MaxLODIndirect 0, tiles = replicate MaxLODIndirect []\<rparr>" "\<lambda>_. True"]
    assms
  by (simp_all add: cull_shader_def length_grid_cells sum_list_replicate comp_def)

lemma scenario_center:
  assumes "grid_width st = 64" "grid_height st = 64" "size_world st = (Some 1000, Some 1000)"
    "xz (last_camera_position st) = (Some 0, Some 0)"
  shows "get_snapped_grid_center st = (Some 0, Some 0)"
    and "v2_sub (v2_mul (get_snapped_grid_center st) (get_grid_size st))
           (v2_scale (Some (1 / 2)) (size_world st)) = (Some (- 500), Some (- 500))"
proof -
  show c: "get_snapped_grid_center st = (Some 0, Some 0)"
    by (simp add: get_snapped_grid_center_def assms v2_div_def v2_mul_def
      v2_round_def v2_of_uint_def float_eval Let_def)
  show "v2_sub (v2_mul (get_snapped_grid_center st) (get_grid_size st))
           (v2_scale (Some (1 / 2)) (size_world st)) = (Some (- 500), Some (- 500))"
    by (simp add: c get_grid_size_def assms v2_div_def v2_mul_def v2_sub_def v2_scale_def
      v2_of_uint_def float_eval)
qed

lemma cull_blocks_push:
  assumes "cull_blocks st cmd = Some cmd'"
  shows "\<exists>push. cull_push (drop (length cmd) cmd') = Some push \<and>
     cp_num_threads push = (grid_width st, grid_height st) \<and>
     cp_grid_base push = v2_sub (v2_mul (get_snapped_grid_center st) (get_grid_size st))
           (v2_scale (Some (1 / 2)) (size_world st))"
  using assms by (auto simp add: cull_blocks_def Let_def split: bind_splits)

lemma build_lod_map_push:
  assumes "build_lod_map st cmd = Some cmd'"
  shows "\<exists>push. lod_map_push (drop (length cmd) cmd') = Some push \<and>
     lm_grid_base push = v2_sub (v2_mul (get_snapped_grid_center st) (get_grid_size st))
           (v2_scale (Some (1 / 2)) (size_world st))"
  using assms by (auto simp add: build_lod_map_def Let_def split: bind_splits)

section \<open>The claims\<close>

text \<open>
  Claim C2, as amended. Whenever the tessellation resolution is below \<open>2\<^sup>3\<^sup>1\<close>,
  \<^verbatim>\<open>build_buffers\<close> returns, and it appends one tier for each power-of-two stride
  \<open>2\<^sup>k\<close>, starting at stride 1, as long as the per-tier size (the resolution shifted right
  by \<open>k\<close>) is at least 2, and none after that. The tier built for size \<open>s\<close> has
  \<open>(s + 1) * (s + 1)\<close> vertices and an index buffer of \<open>(2 * (s + 1) + 1) * s\<close> entries,
  which is also its index count. For resolution 8 these are exactly 3 tiers (strides 1, 2 and
  4; the size left for stride 8 is 1), and tier 0 has 81 vertices.
\<close>

theorem lod_mesh_table_tiers:
  assumes "unat (grid_resolution st) < 2 ^ 31"
  shows "\<exists>lods. build_buffers st = Some (st\<lparr>quad_lod := quad_lod st @ lods\<rparr>) \<and>
           length lods = tiers (unat (grid_resolution st)) \<and>
           (\<forall>k<length lods.
              2 \<le> drop_bit k (grid_resolution st) \<and>
              build_lod st (drop_bit k (grid_resolution st)) (2 ^ k) =
                Some (st\<lparr>quad_lod := quad_lod st @ [lods ! k]\<rparr>) \<and>
              length (vertices_of (vbo (lods ! k))) =
                (unat (drop_bit k (grid_resolution st)) + 1) * (unat (drop_bit k (grid_resolution st)) + 1) \<and>
              length (indices_of (ibo (lods ! k))) =
                (2 * (unat (drop_bit k (grid_resolution st)) + 1) + 1) * unat (drop_bit k (grid_resolution st)) \<and>
              count (lods ! k) = length (indices_of (ibo (lods ! k)))) \<and>
           drop_bit (length lods) (grid_resolution st) < 2 \<and>
           (grid_resolution st = 8 \<longrightarrow>
              length lods = 3 \<and> length (vertices_of (vbo (lods ! 0))) = 81)"
proof -
  define g where "g = grid_resolution st"
  define lods where "lods = map (\<lambda>k. lod_mesh g (drop_bit k g) (2 ^ k)) [0..<tiers (unat g)]"
  have g: "unat g < 2 ^ 31" using assms by (simp add: g_def)
  have len: "length lods = tiers (unat g)" by (simp add: lods_def)
  have bb: "build_buffers st = Some (st\<lparr>quad_lod := quad_lod st @ lods\<rparr>)"
    using build_buffers_eq [OF assms] by (simp add: lods_def g_def)
  have tier: "2 \<le> drop_bit k g \<and>
        build_lod st (drop_bit k g) (2 ^ k) = Some (st\<lparr>quad_lod := quad_lod st @ [lods ! k]\<rparr>) \<and>
        length (vertices_of (vbo (lods ! k))) = (unat (drop_bit k g) + 1) * (unat (drop_bit k g) + 1) \<and>
        length (indices_of (ibo (lods ! k))) = (2 * (unat (drop_bit k g) + 1) + 1) * unat (drop_bit k g) \<and>
        count (lods ! k) = length (indices_of (ibo (lods ! k)))"
    if k: "k < length lods" for k
  proof -
    have kt: "k < tiers (unat g)" using k len by simp
    note nw = tier_no_wrap [OF g kt]
    have nth: "lods ! k = lod_mesh g (drop_bit k g) (2 ^ k)"
      using kt by (simp add: lods_def)
    have b: "build_lod st (drop_bit k g) (2 ^ k) = Some (st\<lparr>quad_lod := quad_lod st @ [lods ! k]\<rparr>)"
      unfolding nth using build_lod_eq [of "2 ^ k" st "drop_bit k g"] nw by (simp add: g_def)
    show ?thesis
      using nw(4) b
      by (simp add: nth lod_mesh_def vertices_of_def indices_of_def length_grid_vertices
          length_strip_indices steps_tier [OF g kt])
  qed
  have small: "drop_bit (length lods) g < 2" unfolding len by (rule last_tier_small)
  have eight: "length lods = 3 \<and> length (vertices_of (vbo (lods ! 0))) = 81" if "g = 8"
  proof -
    have l3: "length lods = 3" using that by (simp add: len tiers_8)
    then have "0 < length lods" by simp
    from tier [OF this] show ?thesis using that l3 by simp
  qed
  show ?thesis
    unfolding g_def [symmetric]
    using bb len tier small eight by blast
qed

text \<open>
  Claim C2, on the configuration \<open>ocean0\<close> (resolution 8): the hypothesis holds and the
  table has 3 tiers, the first with 81 vertices.
\<close>

theorem lod_mesh_table_tiers_witness:
  "unat (grid_resolution ocean0) < 2 ^ 31 \<and>
   (\<exists>lods. build_buffers ocean0 = Some (ocean0\<lparr>quad_lod := lods\<rparr>) \<and>
      length lods = 3 \<and> length (vertices_of (vbo (lods ! 0))) = 81)"
proof -
  have h: "unat (grid_resolution ocean0) < 2 ^ 31" by (simp add: ocean0_def)
  have g: "grid_resolution ocean0 = 8" and q: "quad_lod ocean0 = []" by (simp_all add: ocean0_def)
  from lod_mesh_table_tiers [OF h] obtain lods where
    "build_buffers ocean0 = Some (ocean0\<lparr>quad_lod := quad_lod ocean0 @ lods\<rparr>)"
    "grid_resolution ocean0 = 8 \<longrightarrow> length lods = 3 \<and> length (vertices_of (vbo (lods ! 0))) = 81"
    by blast
  then have "build_buffers ocean0 = Some (ocean0\<lparr>quad_lod := lods\<rparr>) \<and>
      length lods = 3 \<and> length (vertices_of (vbo (lods ! 0))) = 81"
    using g q by simp
  then show ?thesis using h by blast
qed

text \<open>
  Claim C2 as stated fails: for resolution 8 the builder makes 3 tiers, not 4.
\<close>

theorem lod_mesh_table_four_tiers_counterexample:
  "built_tiers ocean0 = Some 3 \<and> built_tiers ocean0 \<noteq> Some 4"
proof -
  have h: "unat (grid_resolution ocean0) < 2 ^ 31" by (simp add: ocean0_def)
  have g: "grid_resolution ocean0 = 8" and q: "quad_lod ocean0 = []" by (simp_all add: ocean0_def)
  show ?thesis
    by (simp add: built_tiers_def build_buffers_eq [OF h] g q tiers_8)
qed

text \<open>
  Claim C9. Every vertex that \<^verbatim>\<open>build_lod\<close> puts into the vertex buffer of the tier it
  appends, and so every vertex of every tier that \<^verbatim>\<open>build_buffers\<close> appends, is the vertex
  of some loop position \<open>(x, y)\<close> within the grid, and its four weights are those of the
  priority chain: only the weight of the first matching edge among \<open>x = 0\<close>,
  \<open>x = resolution\<close>, \<open>y = 0\<close>, \<open>y = resolution\<close> is 255, so a corner has only its
  X-edge weight and an interior vertex has none. Hence at most one weight is 255 and the
  others are 0 (this is \<open>weights_by_chain\<close>).
\<close>

theorem boundary_weights_exclusive:
  "(\<forall>sz stride st'. build_lod st sz stride = Some st' \<longrightarrow>
      (\<exists>lod. quad_lod st' = quad_lod st @ [lod] \<and>
         (\<forall>v\<in>set (vertices_of (vbo lod)). weights_by_chain (grid_resolution st) v))) \<and>
   (\<forall>st'. build_buffers st = Some st' \<longrightarrow>
      (\<exists>new. quad_lod st' = quad_lod st @ new \<and>
         (\<forall>lod\<in>set new. \<forall>v\<in>set (vertices_of (vbo lod)).
            weights_by_chain (grid_resolution st) v)))"
proof (intro conjI allI impI)
  fix sz stride st'
  assume "build_lod st sz stride = Some st'"
  from build_lod_weights [OF this] obtain lod where
    "st' = st\<lparr>quad_lod := quad_lod st @ [lod]\<rparr>"
    "\<forall>v\<in>set (vertices_of (vbo lod)). weights_by_chain (grid_resolution st) v"
    by blast
  then have "quad_lod st' = quad_lod st @ [lod] \<and>
         (\<forall>v\<in>set (vertices_of (vbo lod)). weights_by_chain (grid_resolution st) v)"
    by simp
  then show "\<exists>lod. quad_lod st' = quad_lod st @ [lod] \<and>
         (\<forall>v\<in>set (vertices_of (vbo lod)). weights_by_chain (grid_resolution st) v)" ..
next
  fix st'
  assume "build_buffers st = Some st'"
  then have "build_buffers_loop st (grid_resolution st) 1 = Some st'"
    by (simp add: build_buffers_def)
  from build_buffers_loop_weights [OF this] obtain new where
    "st' = st\<lparr>quad_lod := quad_lod st @ new\<rparr>"
    "\<forall>lod\<in>set new. \<forall>v\<in>set (vertices_of (vbo lod)). weights_by_chain (grid_resolution st) v"
    by blast
  then have "quad_lod st' = quad_lod st @ new \<and>
         (\<forall>lod\<in>set new. \<forall>v\<in>set (vertices_of (vbo lod)).
            weights_by_chain (grid_resolution st) v)"
    by simp
  then show "\<exists>new. quad_lod st' = quad_lod st @ new \<and>
         (\<forall>lod\<in>set new. \<forall>v\<in>set (vertices_of (vbo lod)).
            weights_by_chain (grid_resolution st) v)" ..
qed

text \<open>
  Claim C9, on the configuration \<open>ocean0\<close> (resolution 8): \<^verbatim>\<open>build_lod\<close> returns for size 8
  and stride 1, with \<open>9 * 9\<close> vertices, \<^verbatim>\<open>build_buffers\<close> returns with three tiers, and the
  statement holds for all their vertices; the corner \<open>(0, 0)\<close> has only the first weight,
  the corner \<open>(8, 8)\<close> only the second, and the interior vertex \<open>(1, 1)\<close> none.
\<close>

theorem boundary_weights_exclusive_witness:
  "build_lod ocean0 8 1 = Some (ocean0\<lparr>quad_lod := [lod_mesh 8 8 1]\<rparr>) \<and>
   length (vertices_of (vbo (lod_mesh 8 8 1))) = 81 \<and>
   list_all (weights_by_chain 8) (vertices_of (vbo (lod_mesh 8 8 1))) \<and>
   build_buffers ocean0 =
     Some (ocean0\<lparr>quad_lod := [lod_mesh 8 8 1, lod_mesh 8 4 2, lod_mesh 8 2 4]\<rparr>) \<and>
   list_all (\<lambda>lod. list_all (weights_by_chain 8) (vertices_of (vbo lod)))
     [lod_mesh 8 8 1, lod_mesh 8 4 2, lod_mesh 8 2 4] \<and>
   weights (ocean_vertex 8 0 0) = [255, 0, 0, 0] \<and>
   weights (ocean_vertex 8 8 8) = [0, 255, 0, 0] \<and>
   weights (ocean_vertex 8 1 1) = [0, 0, 0, 0]"
proof -
  have b: "build_lod ocean0 8 1 = Some (ocean0\<lparr>quad_lod := [lod_mesh 8 8 1]\<rparr>)"
    using build_lod_eq [of 1 ocean0 8] by (simp add: ocean0_def)
  have n: "length (vertices_of (vbo (lod_mesh 8 8 1))) = 81"
    by (simp add: lod_mesh_def vertices_of_def length_grid_vertices steps_def)
  have g: "grid_resolution ocean0 = 8" and q: "quad_lod ocean0 = []"
    by (simp_all add: ocean0_def)
  have h: "unat (grid_resolution ocean0) < 2 ^ 31" by (simp add: g)
  have bb: "build_buffers ocean0 =
     Some (ocean0\<lparr>quad_lod := [lod_mesh 8 8 1, lod_mesh 8 4 2, lod_mesh 8 2 4]\<rparr>)"
    unfolding build_buffers_eq [OF h] g q by (simp add: tiers_lods_8)
  note t = boundary_weights_exclusive [of ocean0, unfolded g q]
  from t [THEN conjunct1, rule_format, OF b]
  have c1: "list_all (weights_by_chain 8) (vertices_of (vbo (lod_mesh 8 8 1)))"
    by (simp add: list_all_iff)
  from t [THEN conjunct2, rule_format, OF bb]
  have c2: "list_all (\<lambda>lod. list_all (weights_by_chain 8) (vertices_of (vbo lod)))
     [lod_mesh 8 8 1, lod_mesh 8 4 2, lod_mesh 8 2 4]"
    by (simp add: list_all_iff)
  have w: "weights (ocean_vertex 8 0 0) = [255, 0, 0, 0]"
    "weights (ocean_vertex 8 8 8) = [0, 255, 0, 0]"
    "weights (ocean_vertex 8 1 1) = [0, 0, 0, 0]"
    by (simp_all add: weights_ocean_vertex)
  show ?thesis by (intro conjI) (rule b n c1 bb c2 w)+
qed

text \<open>
  Claim C6. \<^verbatim>\<open>update_lod_pass\<close> returns exactly when the three LOD resources and the
  frustum are there and the grid base coordinate is defined. What it records then makes the
  device run, in this order and nothing else: the detail-level-map dispatch, the
  counter-initialization dispatch, one barrier from compute-shader writes to compute-shader
  writes and reads, and the culling dispatch.
\<close>

theorem lod_pass_order:
  "(update_lod_pass st cmd \<noteq> None \<longleftrightarrow>
      ocean_lod st \<noteq> None \<and> lod_data st \<noteq> None \<and> lod_data_counters st \<noteq> None \<and>
      frustum_planes st \<noteq> None \<and> get_grid_base_coord st \<noteq> None) \<and>
   (\<forall>cmd'. update_lod_pass st cmd = Some cmd' \<longrightarrow>
      (\<exists>new. cmd' = cmd @ new \<and>
         events None new =
           [Run (Some (ComputeProgram ''builtin://shaders/ocean/update_lod.comp'' []))
              ((grid_width st + 7) div 8) ((grid_height st + 7) div 8) 1,
            Run (Some (ComputeProgram ''builtin://shaders/ocean/init_counter_buffer.comp''
                         [(''NUM_COUNTERS'', 8)])) 1 1 1,
            Sync VK_PIPELINE_STAGE_COMPUTE_SHADER_BIT VK_ACCESS_SHADER_WRITE_BIT
                 VK_PIPELINE_STAGE_COMPUTE_SHADER_BIT
                 (VK_ACCESS_SHADER_WRITE_BIT OR VK_ACCESS_SHADER_READ_BIT),
            Run (Some (ComputeProgram ''builtin://shaders/ocean/cull_blocks.comp'' []))
              ((grid_width st + 7) div 8) ((grid_height st + 7) div 8) 1]))"
proof (intro conjI allI impI)
  show "update_lod_pass st cmd \<noteq> None \<longleftrightarrow>
      ocean_lod st \<noteq> None \<and> lod_data st \<noteq> None \<and> lod_data_counters st \<noteq> None \<and>
      frustum_planes st \<noteq> None \<and> get_grid_base_coord st \<noteq> None"
    using update_lod_pass_None [of st cmd] by auto
next
  fix cmd'
  assume "update_lod_pass st cmd = Some cmd'"
  from update_lod_pass_SomeD [OF this] obtain lod off push1 lc planes ld push2 where
    "cmd' = cmd @
      [SetStorageTexture 0 0 (GraphTexture lod), PushConstants (PushLodMap push1),
       SetProgram (ComputeProgram ''builtin://shaders/ocean/update_lod.comp'' []),
       Dispatch ((grid_width st + 7) div 8) ((grid_height st + 7) div 8) 1,
       SetStorageBuffer 0 0 (GraphBuffer lc),
       ConstantDataU32 0 1
          (map (\<lambda>i. if i < length (quad_lod st) then of_nat (count (quad_lod st ! i)) else 0)
               [0..<16]),
       SetProgram (ComputeProgram ''builtin://shaders/ocean/init_counter_buffer.comp''
                      [(''NUM_COUNTERS'', 8)]),
       Dispatch 1 1 1,
       Barrier VK_PIPELINE_STAGE_COMPUTE_SHADER_BIT VK_ACCESS_SHADER_WRITE_BIT
               VK_PIPELINE_STAGE_COMPUTE_SHADER_BIT
               (VK_ACCESS_SHADER_WRITE_BIT OR VK_ACCESS_SHADER_READ_BIT),
       ConstantDataVec4 0 3 (take 6 planes), PushConstants (PushCull push2),
       SetStorageBuffer 0 0 (GraphBuffer ld), SetStorageBuffer 0 1 (GraphBuffer lc),
       SetTexture 0 2 (GraphTexture lod) NearestWrap,
       SetProgram (ComputeProgram ''builtin://shaders/ocean/cull_blocks.comp'' []),
       Dispatch ((grid_width st + 7) div 8) ((grid_height st + 7) div 8) 1]"
    by blast
  then show "\<exists>new. cmd' = cmd @ new \<and>
         events None new =
           [Run (Some (ComputeProgram ''builtin://shaders/ocean/update_lod.comp'' []))
              ((grid_width st + 7) div 8) ((grid_height st + 7) div 8) 1,
            Run (Some (ComputeProgram ''builtin://shaders/ocean/init_counter_buffer.comp''
                         [(''NUM_COUNTERS'', 8)])) 1 1 1,
            Sync VK_PIPELINE_STAGE_COMPUTE_SHADER_BIT VK_ACCESS_SHADER_WRITE_BIT
                 VK_PIPELINE_STAGE_COMPUTE_SHADER_BIT
                 (VK_ACCESS_SHADER_WRITE_BIT OR VK_ACCESS_SHADER_READ_BIT),
            Run (Some (ComputeProgram ''builtin://shaders/ocean/cull_blocks.comp'' []))
              ((grid_width st + 7) div 8) ((grid_height st + 7) div 8) 1]"
    by simp
qed

text \<open>
  Claim C6, on the configuration \<open>ocean_ready\<close>: the pass returns and runs the two
  dispatches, the barrier and the culling dispatch over 8 by 8 workgroups.
\<close>

theorem lod_pass_order_witness:
  "update_lod_pass ocean_ready [] \<noteq> None \<and>
   map_option (events None) (update_lod_pass ocean_ready []) =
     Some [Run (Some (ComputeProgram ''builtin://shaders/ocean/update_lod.comp'' [])) 8 8 1,
           Run (Some (ComputeProgram ''builtin://shaders/ocean/init_counter_buffer.comp''
                        [(''NUM_COUNTERS'', 8)])) 1 1 1,
           Sync 0x800 0x40 0x800 0x60,
           Run (Some (ComputeProgram ''builtin://shaders/ocean/cull_blocks.comp'' [])) 8 8 1]"
proof -
  have n: "update_lod_pass ocean_ready [] \<noteq> None"
    using lod_pass_order [of ocean_ready "[]", THEN conjunct1]
    by (simp add: ocean_ready_fields grid_base_coord_ready)
  then obtain cmd' where s: "update_lod_pass ocean_ready [] = Some cmd'" by blast
  have d: "(64 + 7) div 8 = (8 :: u32)" by code_simp
  have o: "VK_ACCESS_SHADER_WRITE_BIT OR VK_ACCESS_SHADER_READ_BIT = 0x60"
    unfolding VK_ACCESS_SHADER_WRITE_BIT_def VK_ACCESS_SHADER_READ_BIT_def by code_simp
  note r = lod_pass_order [of ocean_ready "[]", THEN conjunct2, rule_format, OF s, unfolded o]
  show ?thesis using n s r
    by (auto simp add: ocean_ready_fields d VK_PIPELINE_STAGE_COMPUTE_SHADER_BIT_def
        VK_ACCESS_SHADER_WRITE_BIT_def)
qed

text \<open>
  Claim C10. Whenever the counter buffer is there, \<^verbatim>\<open>init_counter_buffer\<close> records the
  counter-initialization dispatch with a constant array of 16 entries, entry \<open>i\<close> being the
  index count of tier \<open>i\<close> for \<open>i\<close> below the number of tiers and 0 otherwise. In
  \<^verbatim>\<open>update_lod_pass\<close> that array and its dispatch come before the barrier and the culling
  dispatch, which are all that is run after them.
\<close>

theorem counter_init_constants:
  "(\<forall>lc. lod_data_counters st = Some lc \<longrightarrow>
      init_counter_buffer st cmd = Some (cmd @
        [SetStorageBuffer 0 0 (GraphBuffer lc),
         ConstantDataU32 0 1
           (map (\<lambda>i. if i < length (quad_lod st) then of_nat (count (quad_lod st ! i)) else 0)
                [0..<16]),
         SetProgram (ComputeProgram ''builtin://shaders/ocean/init_counter_buffer.comp''
                       [(''NUM_COUNTERS'', 8)]),
         Dispatch 1 1 1])) \<and>
   (\<forall>cmd'. update_lod_pass st cmd = Some cmd' \<longrightarrow>
      (\<exists>before after. cmd' = cmd @ before @
        [ConstantDataU32 0 1
           (map (\<lambda>i. if i < length (quad_lod st) then of_nat (count (quad_lod st ! i)) else 0)
                [0..<16]),
         SetProgram (ComputeProgram ''builtin://shaders/ocean/init_counter_buffer.comp''
                       [(''NUM_COUNTERS'', 8)]),
         Dispatch 1 1 1] @ after \<and>
        events None after =
          [Sync VK_PIPELINE_STAGE_COMPUTE_SHADER_BIT VK_ACCESS_SHADER_WRITE_BIT
                VK_PIPELINE_STAGE_COMPUTE_SHADER_BIT
                (VK_ACCESS_SHADER_WRITE_BIT OR VK_ACCESS_SHADER_READ_BIT),
           Run (Some (ComputeProgram ''builtin://shaders/ocean/cull_blocks.comp'' []))
             ((grid_width st + 7) div 8) ((grid_height st + 7) div 8) 1]))"
proof (intro conjI allI impI)
  fix lc
  assume "lod_data_counters st = Some lc"
  then show "init_counter_buffer st cmd = Some (cmd @
        [SetStorageBuffer 0 0 (GraphBuffer lc),
         ConstantDataU32 0 1
           (map (\<lambda>i. if i < length (quad_lod st) then of_nat (count (quad_lod st ! i)) else 0)
                [0..<16]),
         SetProgram (ComputeProgram ''builtin://shaders/ocean/init_counter_buffer.comp''
                       [(''NUM_COUNTERS'', 8)]),
         Dispatch 1 1 1])"
    by (simp add: init_counter_buffer_eq)
next
  fix cmd'
  assume "update_lod_pass st cmd = Some cmd'"
  from update_lod_pass_SomeD [OF this] obtain lod off push1 lc planes ld push2 where
    c: "cmd' = cmd @
      [SetStorageTexture 0 0 (GraphTexture lod), PushConstants (PushLodMap push1),
       SetProgram (ComputeProgram ''builtin://shaders/ocean/update_lod.comp'' []),
       Dispatch ((grid_width st + 7) div 8) ((grid_height st + 7) div 8) 1,
       SetStorageBuffer 0 0 (GraphBuffer lc),
       ConstantDataU32 0 1
          (map (\<lambda>i. if i < length (quad_lod st) then of_nat (count (quad_lod st ! i)) else 0)
               [0..<16]),
       SetProgram (ComputeProgram ''builtin://shaders/ocean/init_counter_buffer.comp''
                      [(''NUM_COUNTERS'', 8)]),
       Dispatch 1 1 1,
       Barrier VK_PIPELINE_STAGE_COMPUTE_SHADER_BIT VK_ACCESS_SHADER_WRITE_BIT
               VK_PIPELINE_STAGE_COMPUTE_SHADER_BIT
               (VK_ACCESS_SHADER_WRITE_BIT OR VK_ACCESS_SHADER_READ_BIT),
       ConstantDataVec4 0 3 (take 6 planes), PushConstants (PushCull push2),
       SetStorageBuffer 0 0 (GraphBuffer ld), SetStorageBuffer 0 1 (GraphBuffer lc),
       SetTexture 0 2 (GraphTexture lod) NearestWrap,
       SetProgram (ComputeProgram ''builtin://shaders/ocean/cull_blocks.comp'' []),
       Dispatch ((grid_width st + 7) div 8) ((grid_height st + 7) div 8) 1]"
    by blast
  show "\<exists>before after. cmd' = cmd @ before @
        [ConstantDataU32 0 1
           (map (\<lambda>i. if i < length (quad_lod st) then of_nat (count (quad_lod st ! i)) else 0)
                [0..<16]),
         SetProgram (ComputeProgram ''builtin://shaders/ocean/init_counter_buffer.comp''
                       [(''NUM_COUNTERS'', 8)]),
         Dispatch 1 1 1] @ after \<and>
        events None after =
          [Sync VK_PIPELINE_STAGE_COMPUTE_SHADER_BIT VK_ACCESS_SHADER_WRITE_BIT
                VK_PIPELINE_STAGE_COMPUTE_SHADER_BIT
                (VK_ACCESS_SHADER_WRITE_BIT OR VK_ACCESS_SHADER_READ_BIT),
           Run (Some (ComputeProgram ''builtin://shaders/ocean/cull_blocks.comp'' []))
             ((grid_width st + 7) div 8) ((grid_height st + 7) div 8) 1]"
    apply (rule exI [of _ "[SetStorageTexture 0 0 (GraphTexture lod), PushConstants (PushLodMap push1),
       SetProgram (ComputeProgram ''builtin://shaders/ocean/update_lod.comp'' []),
       Dispatch ((grid_width st + 7) div 8) ((grid_height st + 7) div 8) 1,
       SetStorageBuffer 0 0 (GraphBuffer lc)]"])
    apply (rule exI [of _ "[Barrier VK_PIPELINE_STAGE_COMPUTE_SHADER_BIT VK_ACCESS_SHADER_WRITE_BIT
               VK_PIPELINE_STAGE_COMPUTE_SHADER_BIT
               (VK_ACCESS_SHADER_WRITE_BIT OR VK_ACCESS_SHADER_READ_BIT),
       ConstantDataVec4 0 3 (take 6 planes), PushConstants (PushCull push2),
       SetStorageBuffer 0 0 (GraphBuffer ld), SetStorageBuffer 0 1 (GraphBuffer lc),
       SetTexture 0 2 (GraphTexture lod) NearestWrap,
       SetProgram (ComputeProgram ''builtin://shaders/ocean/cull_blocks.comp'' []),
       Dispatch ((grid_width st + 7) div 8) ((grid_height st + 7) div 8) 1]"])
    apply (simp add: c)
    done
qed

text \<open>
  Claim C10, on the configuration \<open>ocean_ready\<close>: the array holds the index counts 152, 44
  and 14 of its three tiers and then zeros, and the pass returns.
\<close>

theorem counter_init_constants_witness:
  "lod_data_counters ocean_ready = Some ''ocean-lod-counter'' \<and>
   init_counter_buffer ocean_ready [] = Some
     [SetStorageBuffer 0 0 (GraphBuffer ''ocean-lod-counter''),
      ConstantDataU32 0 1 [152, 44, 14, 0, 0, 0, 0, 0, 0, 0, 0, 0, 0, 0, 0, 0],
      SetProgram (ComputeProgram ''builtin://shaders/ocean/init_counter_buffer.comp''
                    [(''NUM_COUNTERS'', 8)]),
      Dispatch 1 1 1] \<and>
   update_lod_pass ocean_ready [] \<noteq> None"
proof -
  have l: "lod_data_counters ocean_ready = Some ''ocean-lod-counter''"
    by (simp add: ocean_ready_fields)
  have n: "update_lod_pass ocean_ready [] \<noteq> None"
    by (simp add: update_lod_pass_None ocean_ready_fields grid_base_coord_ready)
  from counter_init_constants [of ocean_ready "[]", THEN conjunct1, rule_format, OF l] l n
  show ?thesis unfolding counts_ready by simp
qed

text \<open>
  Claim C8. With the record that \<^verbatim>\<open>get_render_info\<close> fills in, \<^verbatim>\<open>ocean_render\<close> records,
  for each instance, the levels from 0 up to the last tier in order, and for each level
  exactly: the binding of the tile data buffer at offset \<open>lod_stride * level\<close> (in 32-bit
  arithmetic) with length \<open>lod_stride\<close>, the vertex and the index buffer of that tier of
  the mesh table, and one indirect draw that reads its arguments from the counter buffer at
  byte offset \<open>8 * 4 * level\<close>. Nothing else is recorded between the levels, so no count is
  read back.
\<close>

theorem render_lod_draws:
  assumes "get_render_info st = Some info"
  shows "\<exists>ubo_name indirect_name.
     lod_data st = Some ubo_name \<and> lod_data_counters st = Some indirect_name \<and>
     unat (lods info) = length (quad_lod st) \<and>
     lod_stride info = grid_width st * grid_height st * 2 * 16 \<and>
     ocean_render cmd info n = Some (cmd @
       [SetProgram (program info),
        SetVertexAttrib 0 0 R8G8B8A8_UINT 0,
        SetVertexAttrib 1 0 R8G8B8A8_UNORM 4,
        SetPrimitiveRestart True,
        SetWireframe True,
        SetPrimitiveTopology TRIANGLE_STRIP] @
       concat (replicate (unat n)
         ([PushConstants (PushOceanData (ocean_data info)),
           SetTexture 2 0 (heightmap info) LinearWrap,
           SetTexture 2 1 (lod_map info) LinearWrap,
           SetTexture 2 2 (grad_jacobian info) TrilinearWrap,
           SetTexture 2 3 (normal info) TrilinearWrap] @
          concat (map (\<lambda>lod.
            [SetUniformBuffer 3 0 (GraphBuffer ubo_name)
               (unat (lod_stride info * of_nat lod)) (unat (lod_stride info)),
             SetVertexBinding 0 (DeviceBuffer (vbo (quad_lod st ! lod))) 0 8,
             SetIndexBuffer (DeviceBuffer (ibo (quad_lod st ! lod))) 0 UINT16,
             DrawIndexedIndirect (GraphBuffer indirect_name) (8 * 4 * lod) 1 (8 * 4)])
            [0..<length (quad_lod st)]))))"
proof -
  define k where "k = length (quad_lod st)"
  from assms obtain ubo_name indirect_name where
    u: "lod_data st = Some ubo_name" and i: "lod_data_counters st = Some indirect_name"
    and le: "k \<le> MaxLODIndirect"
    and ub: "ubo info = GraphBuffer ubo_name" and ib: "indirect info = GraphBuffer indirect_name"
    and l: "lods info = of_nat k"
    and s: "lod_stride info = grid_width st * grid_height st * 2 * 16"
    and v: "vbos info = fold (\<lambda>i a. a[i := Some (vbo (quad_lod st ! i))]) [0..<k]
                          (replicate MaxLODIndirect None)"
    and x: "ibos info = fold (\<lambda>i a. a[i := Some (ibo (quad_lod st ! i))]) [0..<k]
                          (replicate MaxLODIndirect None)"
    unfolding k_def
    by (auto simp add: get_render_info_def split: bind_splits if_splits)
  have k8: "k \<le> 8" using le by (simp add: MaxLODIndirect_def)
  have ul: "unat (lods info) = k" unfolding l by (rule unat_of_nat_small [OF k8])
  have v': "vbos info = map (\<lambda>i. Some (vbo (quad_lod st ! i))) [0..<k] @
              drop k (replicate MaxLODIndirect None)"
    unfolding v using le by (intro fold_list_update_upt) simp
  have x': "ibos info = map (\<lambda>i. Some (ibo (quad_lod st ! i))) [0..<k] @
              drop k (replicate MaxLODIndirect None)"
    unfolding x using le by (intro fold_list_update_upt) simp
  have arr: "\<forall>lod\<in>set [0..<k]. array_at (vbos info) lod = Some (vbo (quad_lod st ! lod)) \<and>
                         array_at (ibos info) lod = Some (ibo (quad_lod st ! lod))"
    by (simp add: array_at_def v' x' nth_append)
  note rl = render_lods_eq [OF arr, unfolded ub ib]
  have rl': "render_lods info [0..<unat (lods info)] = (\<lambda>cmd. Some (cmd @ concat (map (\<lambda>lod.
           [SetUniformBuffer 3 0 (GraphBuffer ubo_name)
              (unat (lod_stride info * of_nat lod)) (unat (lod_stride info)),
            SetVertexBinding 0 (DeviceBuffer (vbo (quad_lod st ! lod))) 0 8,
            SetIndexBuffer (DeviceBuffer (ibo (quad_lod st ! lod))) 0 UINT16,
            DrawIndexedIndirect (GraphBuffer indirect_name) (8 * 4 * lod) 1 (8 * 4)]) [0..<k])))"
    unfolding ul by (rule ext) (rule rl)
  have "ocean_render cmd info n = Some (cmd @
       [SetProgram (program info),
        SetVertexAttrib 0 0 R8G8B8A8_UINT 0,
        SetVertexAttrib 1 0 R8G8B8A8_UNORM 4,
        SetPrimitiveRestart True,
        SetWireframe True,
        SetPrimitiveTopology TRIANGLE_STRIP] @
       concat (replicate (unat n)
         ([PushConstants (PushOceanData (ocean_data info)),
           SetTexture 2 0 (heightmap info) LinearWrap,
           SetTexture 2 1 (lod_map info) LinearWrap,
           SetTexture 2 2 (grad_jacobian info) TrilinearWrap,
           SetTexture 2 3 (normal info) TrilinearWrap] @
          concat (map (\<lambda>lod.
            [SetUniformBuffer 3 0 (GraphBuffer ubo_name)
               (unat (lod_stride info * of_nat lod)) (unat (lod_stride info)),
             SetVertexBinding 0 (DeviceBuffer (vbo (quad_lod st ! lod))) 0 8,
             SetIndexBuffer (DeviceBuffer (ibo (quad_lod st ! lod))) 0 UINT16,
             DrawIndexedIndirect (GraphBuffer indirect_name) (8 * 4 * lod) 1 (8 * 4)])
            [0..<k]))))"
    unfolding ocean_render_def render_instances_eq [OF rl'] by simp
  then show ?thesis using u i ul s unfolding k_def by blast
qed

text \<open>
  Claim C8, on the configuration \<open>ocean_ready\<close> and one instance: three levels, at offsets
  0, 131072 and 262144 of the tile data and 0, 32 and 64 of the counter buffer.
\<close>

theorem render_lod_draws_witness:
  "\<exists>info. get_render_info ocean_ready = Some info \<and>
     ocean_render [] info 1 = Some
       [SetProgram (program info),
        SetVertexAttrib 0 0 R8G8B8A8_UINT 0,
        SetVertexAttrib 1 0 R8G8B8A8_UNORM 4,
        SetPrimitiveRestart True,
        SetWireframe True,
        SetPrimitiveTopology TRIANGLE_STRIP,
        PushConstants (PushOceanData (ocean_data info)),
        SetTexture 2 0 (heightmap info) LinearWrap,
        SetTexture 2 1 (lod_map info) LinearWrap,
        SetTexture 2 2 (grad_jacobian info) TrilinearWrap,
        SetTexture 2 3 (normal info) TrilinearWrap,
        SetUniformBuffer 3 0 (GraphBuffer ''ocean-lod-data'') 0 131072,
        SetVertexBinding 0 (DeviceBuffer (vbo (lod_mesh 8 8 1))) 0 8,
        SetIndexBuffer (DeviceBuffer (ibo (lod_mesh 8 8 1))) 0 UINT16,
        DrawIndexedIndirect (GraphBuffer ''ocean-lod-counter'') 0 1 32,
        SetUniformBuffer 3 0 (GraphBuffer ''ocean-lod-data'') 131072 131072,
        SetVertexBinding 0 (DeviceBuffer (vbo (lod_mesh 8 4 2))) 0 8,
        SetIndexBuffer (DeviceBuffer (ibo (lod_mesh 8 4 2))) 0 UINT16,
        DrawIndexedIndirect (GraphBuffer ''ocean-lod-counter'') 32 1 32,
        SetUniformBuffer 3 0 (GraphBuffer ''ocean-lod-data'') 262144 131072,
        SetVertexBinding 0 (DeviceBuffer (vbo (lod_mesh 8 2 4))) 0 8,
        SetIndexBuffer (DeviceBuffer (ibo (lod_mesh 8 2 4))) 0 UINT16,
        DrawIndexedIndirect (GraphBuffer ''ocean-lod-counter'') 64 1 32]"
proof -
  obtain info where g: "get_render_info ocean_ready = Some info"
    by (simp add: get_render_info_def ocean_ready_fields MaxLODIndirect_def)
  have u3: "[0..<3] = [0, 1, 2 :: nat]" by (simp add: eval_nat_numeral)
  have s: "(64 :: u32) * 64 * 2 * 16 = 131072" "unat (131072 :: u32) = 131072"
    "unat ((131072 :: u32) * 2) = 262144" by simp_all
  from render_lod_draws [OF g, of "[]" 1] obtain ubo_name indirect_name where
    r: "lod_data ocean_ready = Some ubo_name" "lod_data_counters ocean_ready = Some indirect_name"
      "lod_stride info = grid_width ocean_ready * grid_height ocean_ready * 2 * 16"
      "ocean_render [] info 1 = Some ([] @
       [SetProgram (program info),
        SetVertexAttrib 0 0 R8G8B8A8_UINT 0,
        SetVertexAttrib 1 0 R8G8B8A8_UNORM 4,
        SetPrimitiveRestart True,
        SetWireframe True,
        SetPrimitiveTopology TRIANGLE_STRIP] @
       concat (replicate (unat (1 :: u32))
         ([PushConstants (PushOceanData (ocean_data info)),
           SetTexture 2 0 (heightmap info) LinearWrap,
           SetTexture 2 1 (lod_map info) LinearWrap,
           SetTexture 2 2 (grad_jacobian info) TrilinearWrap,
           SetTexture 2 3 (normal info) TrilinearWrap] @
          concat (map (\<lambda>lod.
            [SetUniformBuffer 3 0 (GraphBuffer ubo_name)
               (unat (lod_stride info * of_nat lod)) (unat (lod_stride info)),
             SetVertexBinding 0 (DeviceBuffer (vbo (quad_lod ocean_ready ! lod))) 0 8,
             SetIndexBuffer (DeviceBuffer (ibo (quad_lod ocean_ready ! lod))) 0 UINT16,
             DrawIndexedIndirect (GraphBuffer indirect_name) (8 * 4 * lod) 1 (8 * 4)])
            [0..<length (quad_lod ocean_ready)]))))"
    by blast
  have st: "lod_stride info = 131072" using r(3) by (simp add: ocean_ready_fields)
  have "ocean_render [] info 1 = Some
       [SetProgram (program info),
        SetVertexAttrib 0 0 R8G8B8A8_UINT 0,
        SetVertexAttrib 1 0 R8G8B8A8_UNORM 4,
        SetPrimitiveRestart True,
        SetWireframe True,
        SetPrimitiveTopology TRIANGLE_STRIP,
        PushConstants (PushOceanData (ocean_data info)),
        SetTexture 2 0 (heightmap info) LinearWrap,
        SetTexture 2 1 (lod_map info) LinearWrap,
        SetTexture 2 2 (grad_jacobian info) TrilinearWrap,
        SetTexture 2 3 (normal info) TrilinearWrap,
        SetUniformBuffer 3 0 (GraphBuffer ''ocean-lod-data'') 0 131072,
        SetVertexBinding 0 (DeviceBuffer (vbo (lod_mesh 8 8 1))) 0 8,
        SetIndexBuffer (DeviceBuffer (ibo (lod_mesh 8 8 1))) 0 UINT16,
        DrawIndexedIndirect (GraphBuffer ''ocean-lod-counter'') 0 1 32,
        SetUniformBuffer 3 0 (GraphBuffer ''ocean-lod-data'') 131072 131072,
        SetVertexBinding 0 (DeviceBuffer (vbo (lod_mesh 8 4 2))) 0 8,
        SetIndexBuffer (DeviceBuffer (ibo (lod_mesh 8 4 2))) 0 UINT16,
        DrawIndexedIndirect (GraphBuffer ''ocean-lod-counter'') 32 1 32,
        SetUniformBuffer 3 0 (GraphBuffer ''ocean-lod-data'') 262144 131072,
        SetVertexBinding 0 (DeviceBuffer (vbo (lod_mesh 8 2 4))) 0 8,
        SetIndexBuffer (DeviceBuffer (ibo (lod_mesh 8 2 4))) 0 UINT16,
        DrawIndexedIndirect (GraphBuffer ''ocean-lod-counter'') 64 1 32]"
    using r(1,2) unfolding r(4) st by (simp add: ocean_ready_fields u3 s)
  with g show ?thesis by blast
qed

text \<open>
  Claim C1, evaluated on the configuration \<open>ocean_ready\<close> (height 256, displacement 128,
  normal 256). The three inverse transforms are built with each field's own resolution,
  complex-to-real for the height and complex-to-complex for the other two, and
  \<^verbatim>\<open>compute_fft\<close> runs each on its own input buffer. The
  time-modulation dispatch of the displacement field runs over the displacement
  resolution (2 by 128 workgroups), but the resolution \<open>N\<close> in its push constants is the
  normal field's, 256, not 128.
\<close>

theorem fft_input_displacement_resolution:
  "displacement_fft ocean_ready = Some (fft_args 128 ComplexToComplex Image) \<and>
   normal_fft ocean_ready = Some (fft_args 256 ComplexToComplex Image) \<and>
   height_fft ocean_ready = Some (fft_args 256 ComplexToReal ImageReal) \<and>
   map_option (fft_dispatches None None) (update_fft_input ocean_ready []) =
     Some [(Some (generate_fft []), Some (256, 256), 4, 256, 1),
           (Some (generate_fft [(''GRADIENT_DISPLACEMENT'', 1)]), Some (256, 256), 2, 128, 1),
           (Some (generate_fft [(''GRADIENT_NORMAL'', 1)]), Some (256, 256), 4, 256, 1)] \<and>
   compute_fft ocean_ready [] =
     Some [FFTProcess (fft_args 256 ComplexToReal ImageReal)
             (GraphTexture ''ocean-height-fft-output'') (GraphBuffer ''ocean-height-fft-input''),
           FFTProcess (fft_args 256 ComplexToComplex Image)
             (MipView ''ocean-normal-fft-output'' 0) (GraphBuffer ''ocean-normal-fft-input''),
           FFTProcess (fft_args 128 ComplexToComplex Image)
             (GraphTexture ''ocean-displacement-fft-output'')
             (GraphBuffer ''ocean-displacement-fft-input'')]"
  by (simp add: ocean_ready_ffts update_fft_input_def compute_fft_def front_def
      ocean_ready_fields Let_def div_64)

text \<open>
  Claim C3, as amended. In the pass that \<^verbatim>\<open>add_fft_update_pass\<close> adds, the combined
  height-displacement texture is declared with as many mip levels as the mesh table has
  tiers, and the gradient-jacobian texture is declared with the level count 0.
\<close>

theorem mip_levels_declared:
  "declared_levels [last (snd (add_fft_update_pass att buf st graph))]
     ''ocean-height-displacement-output'' = Some (of_nat (length (quad_lod st))) \<and>
   declared_levels [last (snd (add_fft_update_pass att buf st graph))]
     ''ocean-gradient-jacobian-output'' = Some 0"
  by (simp add: declared_levels_def add_fft_update_pass_def Let_def)

text \<open>
  Claim C3 as stated fails: with the three tiers of \<open>ocean_built\<close> the gradient-jacobian
  texture is declared with 0 levels, not 3.
\<close>

theorem gradient_jacobian_levels_counterexample:
  "length (quad_lod ocean_built) = 3 \<and>
   declared_levels (snd (add_fft_update_pass att0 buf0 ocean_built []))
     ''ocean-gradient-jacobian-output'' = Some 0 \<and>
   declared_levels (snd (add_fft_update_pass att0 buf0 ocean_built []))
     ''ocean-gradient-jacobian-output'' \<noteq> Some (of_nat (length (quad_lod ocean_built)))"
  by (simp add: declared_levels_def add_fft_update_pass_def Let_def ocean_built_eq
      init_distributions_def)

text \<open>
  Claim C4, as amended. A configuration with an FFT size that is not a power of two is
  rejected at construction: \<^verbatim>\<open>on_device_created\<close> ends with an error exactly when the
  constructor of the FFT library throws it for the first of the three transforms (height,
  displacement, normal) that it refuses, before any buffer is built, and with the
  constructor that refuses sizes that are not powers of two this is a configuration error
  whenever one of the three sizes is not a power of two. The grid dimensions are not
  checked: when the constructor accepts the three sizes and the tessellation resolution is
  below \<open>2\<^sup>3\<^sup>1\<close>, \<^verbatim>\<open>on_device_created\<close> returns normally and leaves the grid dimensions
  as they were, also when they are zero.
\<close>

theorem construction_rejects_fft_not_grid:
  "(\<forall>e. on_device_created new_FFT st = Some (Inl e) \<longleftrightarrow>
      new_FFT (fft_args (height_fft_size st) ComplexToReal ImageReal) = Inl e \<or>
      (\<exists>h. new_FFT (fft_args (height_fft_size st) ComplexToReal ImageReal) = Inr h \<and>
           new_FFT (fft_args (displacement_fft_size st) ComplexToComplex Image) = Inl e) \<or>
      (\<exists>h d. new_FFT (fft_args (height_fft_size st) ComplexToReal ImageReal) = Inr h \<and>
             new_FFT (fft_args (displacement_fft_size st) ComplexToComplex Image) = Inr d \<and>
             new_FFT (fft_args (normal_fft_size st) ComplexToComplex Image) = Inl e)) \<and>
   (\<not> is_power_of_two (height_fft_size st) \<or>
    \<not> is_power_of_two (displacement_fft_size st) \<or>
    \<not> is_power_of_two (normal_fft_size st) \<longrightarrow>
    on_device_created GLFFT_FFT st = Some (Inl ConfigurationError)) \<and>
   ((\<exists>h d n. new_FFT (fft_args (height_fft_size st) ComplexToReal ImageReal) = Inr h \<and>
             new_FFT (fft_args (displacement_fft_size st) ComplexToComplex Image) = Inr d \<and>
             new_FFT (fft_args (normal_fft_size st) ComplexToComplex Image) = Inr n) \<and>
    unat (grid_resolution st) < 2 ^ 31 \<longrightarrow>
    (\<exists>st'. on_device_created new_FFT st = Some (Inr st') \<and>
           grid_width st' = grid_width st \<and> grid_height st' = grid_height st))"
proof (intro conjI allI impI)
  fix e
  show "on_device_created new_FFT st = Some (Inl e) \<longleftrightarrow>
      new_FFT (fft_args (height_fft_size st) ComplexToReal ImageReal) = Inl e \<or>
      (\<exists>h. new_FFT (fft_args (height_fft_size st) ComplexToReal ImageReal) = Inr h \<and>
           new_FFT (fft_args (displacement_fft_size st) ComplexToComplex Image) = Inl e) \<or>
      (\<exists>h d. new_FFT (fft_args (height_fft_size st) ComplexToReal ImageReal) = Inr h \<and>
             new_FFT (fft_args (displacement_fft_size st) ComplexToComplex Image) = Inr d \<and>
             new_FFT (fft_args (normal_fft_size st) ComplexToComplex Image) = Inl e)"
    by (auto simp add: on_device_created_def split: sum.splits bind_splits)
next
  assume n: "\<not> is_power_of_two (height_fft_size st) \<or>
    \<not> is_power_of_two (displacement_fft_size st) \<or>
    \<not> is_power_of_two (normal_fft_size st)"
  show "on_device_created GLFFT_FFT st = Some (Inl ConfigurationError)"
  proof (cases "is_power_of_two (height_fft_size st)")
    case False
    then show ?thesis by (simp add: on_device_created_def glfft_rejects)
  next
    case h: True
    show ?thesis
    proof (cases "is_power_of_two (displacement_fft_size st)")
      case False
      then show ?thesis using h
        by (simp add: on_device_created_def glfft_rejects glfft_accepts_pot)
    next
      case True
      then have "\<not> is_power_of_two (normal_fft_size st)" using n h by blast
      then show ?thesis using h True
        by (simp add: on_device_created_def glfft_rejects glfft_accepts_pot)
    qed
  qed
next
  assume a: "(\<exists>h d n. new_FFT (fft_args (height_fft_size st) ComplexToReal ImageReal) = Inr h \<and>
             new_FFT (fft_args (displacement_fft_size st) ComplexToComplex Image) = Inr d \<and>
             new_FFT (fft_args (normal_fft_size st) ComplexToComplex Image) = Inr n) \<and>
    unat (grid_resolution st) < 2 ^ 31"
  then obtain h d n where
    f: "new_FFT (fft_args (height_fft_size st) ComplexToReal ImageReal) = Inr h"
      "new_FFT (fft_args (displacement_fft_size st) ComplexToComplex Image) = Inr d"
      "new_FFT (fft_args (normal_fft_size st) ComplexToComplex Image) = Inr n"
    and g: "unat (grid_resolution st) < 2 ^ 31"
    by blast
  let ?st = "st\<lparr>height_fft := Some h, displacement_fft := Some d, normal_fft := Some n\<rparr>"
  have "unat (grid_resolution ?st) < 2 ^ 31" using g by simp
  from build_buffers_grid_dims [OF this] obtain st' where
    b: "build_buffers ?st = Some st'" "grid_width st' = grid_width st"
      "grid_height st' = grid_height st"
    by auto
  have "on_device_created new_FFT st = Some (Inr (init_distributions st'))"
    by (simp add: on_device_created_def f b(1))
  moreover have "grid_width (init_distributions st') = grid_width st"
    "grid_height (init_distributions st') = grid_height st"
    using b(2,3) by (simp_all add: init_distributions_def Let_def)
  ultimately show "\<exists>st'. on_device_created new_FFT st = Some (Inr st') \<and>
           grid_width st' = grid_width st \<and> grid_height st' = grid_height st"
    by blast
qed

text \<open>
  Claim C4, with the constructor that refuses sizes that are not powers of two: on \<open>ocean0\<close>
  with displacement FFT size 100 the height transform is accepted, the displacement
  transform is refused and construction ends with the configuration error; on \<open>ocean0\<close>
  with both grid dimensions zero construction returns normally, the dimensions still zero.
\<close>

theorem construction_rejects_fft_not_grid_witness:
  "\<not> is_power_of_two (displacement_fft_size (ocean0\<lparr>displacement_fft_size := 100\<rparr>)) \<and>
   on_device_created GLFFT_FFT (ocean0\<lparr>displacement_fft_size := 100\<rparr>) =
     Some (Inl ConfigurationError) \<and>
   GLFFT_FFT (fft_args (height_fft_size (ocean0\<lparr>displacement_fft_size := 100\<rparr>))
     ComplexToReal ImageReal) = Inr (fft_args 256 ComplexToReal ImageReal) \<and>
   GLFFT_FFT (fft_args (displacement_fft_size (ocean0\<lparr>displacement_fft_size := 100\<rparr>))
     ComplexToComplex Image) = Inl ConfigurationError \<and>
   unat (grid_resolution (ocean0\<lparr>grid_width := 0, grid_height := 0\<rparr>)) < 2 ^ 31 \<and>
   (\<exists>st'. on_device_created GLFFT_FFT (ocean0\<lparr>grid_width := 0, grid_height := 0\<rparr>) =
             Some (Inr st') \<and>
          grid_width st' = 0 \<and> grid_height st' = 0)"
proof -
  let ?bad = "ocean0\<lparr>displacement_fft_size := 100\<rparr>"
  let ?st = "ocean0\<lparr>grid_width := 0, grid_height := 0\<rparr>"
  have sb: "height_fft_size ?bad = 256" "displacement_fft_size ?bad = 100"
    by (simp_all add: ocean0_def)
  have nb: "\<not> is_power_of_two (displacement_fft_size ?bad)" by (simp add: sb not_pot_100)
  then have hyp: "\<not> is_power_of_two (height_fft_size ?bad) \<or>
    \<not> is_power_of_two (displacement_fft_size ?bad) \<or>
    \<not> is_power_of_two (normal_fft_size ?bad)" by blast
  have r: "on_device_created GLFFT_FFT ?bad = Some (Inl ConfigurationError)"
    by (rule construction_rejects_fft_not_grid [of GLFFT_FFT ?bad, THEN conjunct2, THEN conjunct1,
        rule_format, OF hyp])
  have c1: "GLFFT_FFT (fft_args (height_fft_size ?bad) ComplexToReal ImageReal) =
      Inr (fft_args 256 ComplexToReal ImageReal)"
    by (simp add: sb glfft_accepts)
  have c2: "GLFFT_FFT (fft_args (displacement_fft_size ?bad) ComplexToComplex Image) =
      Inl ConfigurationError"
    by (simp add: sb glfft_rejects not_pot_100)
  have s: "height_fft_size ?st = 256" "displacement_fft_size ?st = 128"
    "normal_fft_size ?st = 256" "grid_width ?st = 0" "grid_height ?st = 0"
    "grid_resolution ?st = 8"
    by (simp_all add: ocean0_def)
  have g: "unat (grid_resolution ?st) < 2 ^ 31" by (simp add: s)
  from construction_rejects_fft_not_grid [of GLFFT_FFT ?st, THEN conjunct2, THEN conjunct2,
      unfolded s glfft_accepts]
  have z: "\<exists>st'. on_device_created GLFFT_FFT ?st = Some (Inr st') \<and>
          grid_width st' = 0 \<and> grid_height st' = 0"
    unfolding s by simp
  show ?thesis by (intro conjI) (rule nb r c1 c2 g z)+
qed

text \<open>
  Claim C4 as stated fails in its second half: a configuration with zero grid dimensions
  (and FFT sizes that are powers of two) is not rejected.
\<close>

theorem zero_grid_accepted_counterexample:
  "map_option isl (on_device_created GLFFT_FFT (ocean0\<lparr>grid_width := 0, grid_height := 0\<rparr>)) =
     Some False"
proof -
  let ?st = "ocean0\<lparr>grid_width := 0, grid_height := 0\<rparr>"
  let ?st1 = "?st\<lparr>height_fft := Some (fft_args 256 ComplexToReal ImageReal),
               displacement_fft := Some (fft_args 128 ComplexToComplex Image),
               normal_fft := Some (fft_args 256 ComplexToComplex Image)\<rparr>"
  have s: "height_fft_size ?st = 256" "displacement_fft_size ?st = 128"
    "normal_fft_size ?st = 256"
    by (simp_all add: ocean0_def)
  have "unat (grid_resolution ?st1) < 2 ^ 31" by (simp add: ocean0_def)
  from build_buffers_grid_dims [OF this] obtain st' where "build_buffers ?st1 = Some st'"
    by blast
  then show ?thesis
    unfolding on_device_created_def s glfft_accepts by simp
qed

text \<open>
  Claim C5. With a grid of 64 by 64 cells, a world of 1000 by 1000 and the camera above the
  origin, the snapped grid centre is \<open>(0, 0)\<close>; the grid base that the classification and
  the culling dispatch are given is \<open>(-500, -500)\<close>; the culling dispatch is given 64 by 64
  cells, and with a frustum that accepts every cell the culling shader appends 4096 tiles
  in total over all levels, however the cells are classified among the levels.
\<close>

theorem grid_scenario:
  assumes "grid_width st = 64" "grid_height st = 64" "size_world st = (Some 1000, Some 1000)"
    "xz (last_camera_position st) = (Some 0, Some 0)"
  shows "get_snapped_grid_center st = (Some 0, Some 0) \<and>
    (\<forall>cmd cmd'. build_lod_map st cmd = Some cmd' \<longrightarrow>
       (\<exists>push. lod_map_push (drop (length cmd) cmd') = Some push \<and>
          lm_grid_base push = (Some (- 500), Some (- 500)))) \<and>
    (\<forall>cmd cmd'. cull_blocks st cmd = Some cmd' \<longrightarrow>
       (\<exists>push. cull_push (drop (length cmd) cmd') = Some push \<and>
          cp_grid_base push = (Some (- 500), Some (- 500)) \<and>
          cp_num_threads push = (64, 64) \<and>
          (\<forall>level. (\<forall>c. level c < MaxLODIndirect) \<longrightarrow>
             sum_list (counters (cull_shader level (\<lambda>_. True) (cp_num_threads push))) = 4096 \<and>
             sum_list (map length (tiles (cull_shader level (\<lambda>_. True) (cp_num_threads push))))
               = 4096)))"
proof (intro conjI allI impI)
  note sc = scenario_center [OF assms]
  show "get_snapped_grid_center st = (Some 0, Some 0)" by (rule sc(1))
  {
    fix cmd cmd'
    assume "build_lod_map st cmd = Some cmd'"
    from build_lod_map_push [OF this] show "\<exists>push. lod_map_push (drop (length cmd) cmd') = Some push \<and>
          lm_grid_base push = (Some (- 500), Some (- 500))"
      unfolding sc(2) .
  }
  {
    fix cmd cmd'
    assume "cull_blocks st cmd = Some cmd'"
    from cull_blocks_push [OF this] obtain push where
      p: "cull_push (drop (length cmd) cmd') = Some push"
        "cp_num_threads push = (64, 64)" "cp_grid_base push = (Some (- 500), Some (- 500))"
      unfolding sc(2) assms(1,2) by blast
    have "\<forall>level. (\<forall>c. level c < MaxLODIndirect) \<longrightarrow>
             sum_list (counters (cull_shader level (\<lambda>_. True) (cp_num_threads push))) = 4096 \<and>
             sum_list (map length (tiles (cull_shader level (\<lambda>_. True) (cp_num_threads push))))
               = 4096"
      unfolding p(2) by (simp add: cull_all_visible)
    with p show "\<exists>push. cull_push (drop (length cmd) cmd') = Some push \<and>
          cp_grid_base push = (Some (- 500), Some (- 500)) \<and>
          cp_num_threads push = (64, 64) \<and>
          (\<forall>level. (\<forall>c. level c < MaxLODIndirect) \<longrightarrow>
             sum_list (counters (cull_shader level (\<lambda>_. True) (cp_num_threads push))) = 4096 \<and>
             sum_list (map length (tiles (cull_shader level (\<lambda>_. True) (cp_num_threads push))))
               = 4096)"
      by blast
  }
qed

text \<open>
  Claim C5, on the configuration \<open>ocean_ready\<close>: the hypotheses hold, both dispatches are
  recorded, and with every cell at level 0 the counters sum to 4096.
\<close>

theorem grid_scenario_witness:
  "grid_width ocean_ready = 64 \<and> grid_height ocean_ready = 64 \<and>
   size_world ocean_ready = (Some 1000, Some 1000) \<and>
   xz (last_camera_position ocean_ready) = (Some 0, Some 0) \<and>
   get_snapped_grid_center ocean_ready = (Some 0, Some 0) \<and>
   build_lod_map ocean_ready [] \<noteq> None \<and>
   cull_blocks ocean_ready [] \<noteq> None \<and>
   map_option lm_grid_base (build_lod_map ocean_ready [] \<bind> lod_map_push) =
     Some (Some (- 500), Some (- 500)) \<and>
   map_option cp_grid_base (cull_blocks ocean_ready [] \<bind> cull_push) =
     Some (Some (- 500), Some (- 500)) \<and>
   sum_list (counters (cull_shader (\<lambda>_. 0) (\<lambda>_. True) (64, 64))) = 4096"
proof -
  have a: "grid_width ocean_ready = 64" "grid_height ocean_ready = 64"
    "size_world ocean_ready = (Some 1000, Some 1000)"
    "xz (last_camera_position ocean_ready) = (Some 0, Some 0)"
    by (simp_all add: ocean_ready_fields xz_def)
  note t = grid_scenario [OF a]
  obtain c1 where c1: "build_lod_map ocean_ready [] = Some c1"
    using build_lod_map_None [of ocean_ready "[]"]
    by (auto simp add: ocean_ready_fields grid_base_coord_ready)
  obtain c2 where c2: "cull_blocks ocean_ready [] = Some c2"
    using cull_blocks_None [of ocean_ready "[]"]
    by (auto simp add: ocean_ready_fields grid_base_coord_ready)
  from t c1 obtain p1 where p1: "lod_map_push c1 = Some p1"
    "lm_grid_base p1 = (Some (- 500), Some (- 500))"
    by fastforce
  from t c2 obtain p2 where p2: "cull_push c2 = Some p2"
    "cp_grid_base p2 = (Some (- 500), Some (- 500))" "cp_num_threads p2 = (64, 64)"
    and s: "\<forall>level. (\<forall>c. level c < MaxLODIndirect) \<longrightarrow>
             sum_list (counters (cull_shader level (\<lambda>_. True) (cp_num_threads p2))) = 4096 \<and>
             sum_list (map length (tiles (cull_shader level (\<lambda>_. True) (cp_num_threads p2))))
               = 4096"
    by fastforce
  have "sum_list (counters (cull_shader (\<lambda>_. 0) (\<lambda>_. True) (64, 64))) = 4096"
    using s [rule_format, of "\<lambda>_. 0"] unfolding p2(3) by (simp add: MaxLODIndirect_def)
  then show ?thesis using a t c1 c2 p1 p2 by simp
qed

text \<open>
  Claim C7. Two states of the ocean that agree on the latched camera position, the world
  size, the grid dimensions, the number of tiers and the LOD texture have the same snapped
  grid centre and grid base coordinate, and \<^verbatim>\<open>build_lod_map\<close> records the same commands for
  both, whatever the command buffers held before; so whatever the classification shader
  computes from its push constants, the LOD level texture, is the same.
\<close>

theorem grid_snapping_deterministic:
  assumes "last_camera_position st1 = last_camera_position st2"
    and "size_world st1 = size_world st2"
    and "grid_width st1 = grid_width st2" and "grid_height st1 = grid_height st2"
    and "length (quad_lod st1) = length (quad_lod st2)"
    and "ocean_lod st1 = ocean_lod st2"
  shows "get_snapped_grid_center st1 = get_snapped_grid_center st2 \<and>
    get_grid_base_coord st1 = get_grid_base_coord st2 \<and>
    (\<forall>cmd1 cmd2.
       map_option (drop (length cmd1)) (build_lod_map st1 cmd1) =
       map_option (drop (length cmd2)) (build_lod_map st2 cmd2)) \<and>
    (\<forall>cmd1 cmd2 classify.
       map_option classify (build_lod_map st1 cmd1 \<bind> (\<lambda>c. lod_map_push (drop (length cmd1) c))) =
       map_option classify (build_lod_map st2 cmd2 \<bind> (\<lambda>c. lod_map_push (drop (length cmd2) c))))"
proof -
  have c: "get_snapped_grid_center st1 = get_snapped_grid_center st2"
    by (simp add: get_snapped_grid_center_def assms)
  have b: "get_grid_base_coord st1 = get_grid_base_coord st2"
    by (simp add: get_grid_base_coord_def c assms)
  have s: "get_grid_size st1 = get_grid_size st2"
    by (simp add: get_grid_size_def assms)
  have m: "map_option (drop (length cmd1)) (build_lod_map st1 cmd1) =
       map_option (drop (length cmd2)) (build_lod_map st2 cmd2)" for cmd1 cmd2
    by (cases "ocean_lod st2"; cases "get_grid_base_coord st2")
       (simp_all add: build_lod_map_def Let_def c b s assms)
  have p: "build_lod_map st cmd \<bind> (\<lambda>c. lod_map_push (drop (length cmd) c)) =
       map_option (drop (length cmd)) (build_lod_map st cmd) \<bind> lod_map_push" for st cmd
    by (cases "build_lod_map st cmd") simp_all
  show ?thesis using c b m unfolding p by metis
qed

text \<open>
  Claim C7, on \<open>ocean_ready\<close> and the state of the next frame, after a frame tick and a
  refresh with the camera where it was: the hypotheses hold and the classification pass
  records the same commands, with centre \<open>(0, 0)\<close> and base coordinate \<open>(-32, -32)\<close>.
\<close>

theorem grid_snapping_deterministic_witness:
  "last_camera_position ocean_ready =
     last_camera_position (refresh (Some 0, Some 0, Some 0) (fst (on_frame_tick (Some 1) ocean_ready))) \<and>
   size_world ocean_ready =
     size_world (refresh (Some 0, Some 0, Some 0) (fst (on_frame_tick (Some 1) ocean_ready))) \<and>
   grid_width ocean_ready =
     grid_width (refresh (Some 0, Some 0, Some 0) (fst (on_frame_tick (Some 1) ocean_ready))) \<and>
   grid_height ocean_ready =
     grid_height (refresh (Some 0, Some 0, Some 0) (fst (on_frame_tick (Some 1) ocean_ready))) \<and>
   length (quad_lod ocean_ready) =
     length (quad_lod (refresh (Some 0, Some 0, Some 0) (fst (on_frame_tick (Some 1) ocean_ready)))) \<and>
   ocean_lod ocean_ready =
     ocean_lod (refresh (Some 0, Some 0, Some 0) (fst (on_frame_tick (Some 1) ocean_ready))) \<and>
   build_lod_map ocean_ready [] \<noteq> None \<and>
   build_lod_map ocean_ready [] =
     build_lod_map (refresh (Some 0, Some 0, Some 0) (fst (on_frame_tick (Some 1) ocean_ready))) [] \<and>
   get_snapped_grid_center
     (refresh (Some 0, Some 0, Some 0) (fst (on_frame_tick (Some 1) ocean_ready))) = (Some 0, Some 0) \<and>
   get_grid_base_coord
     (refresh (Some 0, Some 0, Some 0) (fst (on_frame_tick (Some 1) ocean_ready))) = Some (- 32, - 32)"
proof -
  let ?st = "refresh (Some 0, Some 0, Some 0) (fst (on_frame_tick (Some 1) ocean_ready))"
  have a: "last_camera_position ocean_ready = last_camera_position ?st"
    "size_world ocean_ready = size_world ?st"
    "grid_width ocean_ready = grid_width ?st" "grid_height ocean_ready = grid_height ?st"
    "length (quad_lod ocean_ready) = length (quad_lod ?st)"
    "ocean_lod ocean_ready = ocean_lod ?st"
    by (simp_all add: refresh_def on_frame_tick_def ocean_ready_fields)
  note t = grid_snapping_deterministic [OF a]
  have n: "build_lod_map ocean_ready [] \<noteq> None"
    by (simp add: build_lod_map_None ocean_ready_fields grid_base_coord_ready)
  have e: "build_lod_map ocean_ready [] = build_lod_map ?st []"
    using t [THEN conjunct2, THEN conjunct2, THEN conjunct1, rule_format, of "[]" "[]"]
    by (simp add: option.map_ident)
  have c: "get_snapped_grid_center ?st = (Some 0, Some 0)"
    using t [THEN conjunct1] by (simp add: snapped_center_ready)
  have b: "get_grid_base_coord ?st = Some (- 32, - 32)"
    using t [THEN conjunct2, THEN conjunct1] by (simp add: grid_base_coord_ready)
  show ?thesis by (intro conjI) (rule a n e c b)+
qed

end
